theory Spec2Isabelle
  imports Main "HOL-Library.Multiset" "HOL-Library.AList"
begin

section \<open>Strings\<close>

text \<open>
  Strings of the program are modelled as \<^typ>\<open>string\<close>, a character standing for the code
  unit of the same number (U+0000 to U+00FF). In that range the white space and line
  terminators removed by \<open>String.prototype.trim\<close> are the code units 9 to 13, 32 and 160.
\<close>

definition isWhiteSpace :: "char \<Rightarrow> bool" where
  "isWhiteSpace c = (let n = (of_char c :: nat) in (9 \<le> n \<and> n \<le> 13) \<or> n = 32 \<or> n = 160)"

definition trim :: "string \<Rightarrow> string" where
  "trim s = rev (dropWhile isWhiteSpace (rev (dropWhile isWhiteSpace s)))"

definition isLower :: "char \<Rightarrow> bool" where
  "isLower c = (let n = (of_char c :: nat) in 97 \<le> n \<and> n \<le> 122)"

definition isUpper :: "char \<Rightarrow> bool" where
  "isUpper c = (let n = (of_char c :: nat) in 65 \<le> n \<and> n \<le> 90)"

definition isDigit :: "char \<Rightarrow> bool" where
  "isDigit c = (let n = (of_char c :: nat) in 48 \<le> n \<and> n \<le> 57)"

text \<open>
  \<open>toUpperCase\<close> is applied by the modelled functions only to strings from which every
  character outside \<open>[a-zA-Z0-9\-_]\<close> has been removed; there it changes the letters
  \<open>a\<close> to \<open>z\<close> and nothing else.
\<close>

definition toUpperChar :: "char \<Rightarrow> char" where
  "toUpperChar c = (if isLower c then char_of ((of_char c :: nat) - 32) else c)"

definition toUpperCase :: "string \<Rightarrow> string" where
  "toUpperCase s = map toUpperChar s"

text \<open>The character class \<open>[a-zA-Z0-9\-_]\<close> of \<open>sanitizeBarcode\<close>.\<close>

definition barcodeChar :: "char \<Rightarrow> bool" where
  "barcodeChar c = (isLower c \<or> isUpper c \<or> isDigit c \<or> c = CHR ''-'' \<or> c = CHR ''_'')"

text \<open>
  \<open>barcode.replace(/[^a-zA-Z0-9\-_]/g, '').substring(0, 100).trim().toUpperCase()\<close>
\<close>

definition sanitizeBarcode :: "string \<Rightarrow> string" where
  "sanitizeBarcode barcode = toUpperCase (trim (take 100 (filter barcodeChar barcode)))"

section \<open>Persisted pieces\<close>

datatype PieceStatus = PENDENTE | PRODUZIDA

record ScanEntry =
  scan_type :: string
  scan_at :: string
  scan_user :: string

record Piece =
  piece_id :: string
  workspaceId :: string
  nome :: string
  modulo :: string
  projeto :: string
  cliente :: string
  medidas :: string
  material :: "string option"
  cor :: "string option"
  status :: PieceStatus
  producedAt :: "string option"
  producedBy :: "string option"
  scanHistory :: "ScanEntry list option"

text \<open>The collection \<open>pieces\<close> of the document store: document id to document.\<close>

type_synonym PieceStore = "string \<rightharpoonup> Piece"

text \<open>The document id \<open>`${ws}_${barcode}`\<close> used by the import and by the scan.\<close>

definition mk_piece_id :: "string \<Rightarrow> string \<Rightarrow> string" where
  "mk_piece_id ws barcode = ws @ ''_'' @ barcode"

section \<open>The scan workflow\<close>

datatype MsgType = MsgSuccess | MsgError

record LastMsg =
  msg_type :: MsgType
  msg_text :: string
  msg_data :: "Piece option"

text \<open>What the two store calls of a scan do: both succeed, or one of them throws.\<close>

datatype StoreOutcome = StoreOk | GetDocThrows | UpdateDocThrows

record Db =
  db_pieces :: PieceStore

record ScanState = Db +
  isScanning :: bool
  code :: string
  lastMsg :: "LastMsg option"

text \<open>Firestore's \<open>arrayUnion\<close>: the element is added unless the array already has it.\<close>

definition arrayUnion :: "'a list option \<Rightarrow> 'a \<Rightarrow> 'a list" where
  "arrayUnion xs x = (case xs of None \<Rightarrow> [x] | Some ys \<Rightarrow> if x \<in> set ys then ys else ys @ [x])"

text \<open>The fields written by \<open>updateDoc\<close> in \<open>handleScan\<close>.\<close>

definition markProduced :: "string \<Rightarrow> string \<Rightarrow> string \<Rightarrow> Piece \<Rightarrow> Piece" where
  "markProduced login_id now1 now2 p =
     p\<lparr>status := PRODUZIDA,
       producedAt := Some now1,
       producedBy := Some login_id,
       scanHistory := Some (arrayUnion (scanHistory p)
          \<lparr>scan_type = ''SCAN'', scan_at = now2, scan_user = login_id\<rparr>)\<rparr>"

text \<open>
  \<open>handleScan\<close>, with the workspace, the user, the two clock readings and the outcome of the
  store calls given. The \<open>finally\<close> block resets \<open>isScanning\<close> on every path that entered
  the \<open>try\<close>.
\<close>

definition handleScan ::
  "string \<Rightarrow> string \<Rightarrow> string \<Rightarrow> string \<Rightarrow> StoreOutcome \<Rightarrow> string \<Rightarrow> ScanState \<Rightarrow> ScanState" where
  "handleScan ws login_id now1 now2 io barcode st =
    (let sanitized = sanitizeBarcode barcode in
     if sanitized = [] \<or> length sanitized < 3 then
       st\<lparr>lastMsg := Some \<lparr>msg_type = MsgError, msg_text = ''C'' @ [CHR 0xF3] @ ''digo inv'' @ [CHR 0xE1] @ ''lido'', msg_data = None\<rparr>\<rparr>
     else if isScanning st then st
     else
       let st1 = st\<lparr>code := []\<rparr>;
           ref = mk_piece_id ws sanitized in
       if io = GetDocThrows then
         st1\<lparr>isScanning := False,
             lastMsg := Some \<lparr>msg_type = MsgError, msg_text = ''Erro ao processar bipagem.'',
                              msg_data = None\<rparr>\<rparr>
       else
         case db_pieces st1 ref of
           None \<Rightarrow>
             st1\<lparr>isScanning := False,
                 lastMsg := Some \<lparr>msg_type = MsgError,
                                  msg_text = ''Pe'' @ [CHR 0xE7] @ ''a n'' @ [CHR 0xE3] @ ''o encontrada no sistema.'', msg_data = None\<rparr>\<rparr>
         | Some piece \<Rightarrow>
             if status piece = PRODUZIDA then
               st1\<lparr>isScanning := False,
                   lastMsg := Some \<lparr>msg_type = MsgError, msg_text = ''Esta pe'' @ [CHR 0xE7] @ ''a j'' @ [CHR 0xE1] @ '' foi bipada!'',
                                    msg_data = Some piece\<rparr>\<rparr>
             else if io = UpdateDocThrows then
               st1\<lparr>isScanning := False,
                   lastMsg := Some \<lparr>msg_type = MsgError,
                                    msg_text = ''Erro ao processar bipagem.'', msg_data = None\<rparr>\<rparr>
             else
               st1\<lparr>db_pieces := (db_pieces st1)(ref \<mapsto> markProduced login_id now1 now2 piece),
                   isScanning := False,
                   lastMsg := Some \<lparr>msg_type = MsgSuccess,
                                    msg_text = ''SUCESSO: '' @ (if nome piece = [] then ''Pe'' @ [CHR 0xE7] @ ''a'' else nome piece)
                                               @ '' bipada!'',
                                    msg_data = Some piece\<rparr>\<rparr>)"

section \<open>Import errors\<close>

datatype ImportErrorType =
    CSV_PARSE_ERROR
  | MISSING_REQUIRED_COLUMN
  | INVALID_BARCODE_FORMAT
  | DUPLICATE_BARCODE_IN_FILE
  | INVALID_MEASUREMENTS
  | PDF_CORRUPTED
  | PDF_PASSWORD_PROTECTED
  | PDF_LAYOUT_UNEXPECTED
  | MISSING_CLIENT_INFO
  | MISSING_PROJECT_INFO
  | GENERIC_SYSTEM_ERROR
  | VALIDATION_ERROR

datatype ImportErrorSeverity = WARNING | ERROR | CRITICAL

record ImportError =
  err_type :: ImportErrorType
  err_message :: string
  err_suggestion :: string
  err_lineNumber :: "nat option"
  err_pageNumber :: "nat option"
  err_field :: "string option"
  err_value :: "string option"
  err_severity :: ImportErrorSeverity

section \<open>The schema validation library, on string inputs\<close>

text \<open>
  The schemas of the program are built from the combinators of the validation library (zod,
  imported without a pinned version; modelled as the releases from 3.25 on behave). Every
  field the program validates is a string, so a schema is modelled on string inputs: it
  returns the issues it raises and the value it passes on. A result with no issue is valid.
  A result with issues and a value is what the library calls dirty: a failed check or
  refinement is recorded and parsing goes on. A result with issues and no value is aborted:
  what follows in the chain is skipped.
\<close>

datatype ZodIssueCode = too_small | too_big | custom | invalid_type | invalid_union

record ZodIssue =
  issue_code :: ZodIssueCode
  issue_path :: "string list"
  issue_message :: string

type_synonym ZodSchema = "string list \<Rightarrow> string \<Rightarrow> ZodIssue list \<times> string option"

text \<open>\<open>z.string()\<close>, and \<open>z.string()\<close> with one check: \<open>.min(n, msg)\<close>, \<open>.max(n, msg)\<close>,
  \<open>.length(n)\<close>. A failed check leaves the result dirty.\<close>

definition z_string :: ZodSchema where
  "z_string path input = ([], Some input)"

definition z_min :: "nat \<Rightarrow> string \<Rightarrow> ZodSchema \<Rightarrow> ZodSchema" where
  "z_min n msg schema path input =
     (let (issues, v) = schema path input in
      (issues @ (if length input < n
                 then [\<lparr>issue_code = too_small, issue_path = path, issue_message = msg\<rparr>]
                 else []), v))"

definition z_max :: "nat \<Rightarrow> string \<Rightarrow> ZodSchema \<Rightarrow> ZodSchema" where
  "z_max n msg schema path input =
     (let (issues, v) = schema path input in
      (issues @ (if length input > n
                 then [\<lparr>issue_code = too_big, issue_path = path, issue_message = msg\<rparr>]
                 else []), v))"

definition z_length :: "nat \<Rightarrow> string \<Rightarrow> ZodSchema \<Rightarrow> ZodSchema" where
  "z_length n msg schema path input =
     (let (issues, v) = schema path input in
      (issues @ (if length input > n
                 then [\<lparr>issue_code = too_big, issue_path = path, issue_message = msg\<rparr>]
                 else if length input < n
                 then [\<lparr>issue_code = too_small, issue_path = path, issue_message = msg\<rparr>]
                 else []), v))"

text \<open>
  \<open>.transform(f)\<close>: the function is applied when the inner result is valid. When the inner
  result has issues, the function is not applied and the result is aborted, with the issues
  of the inner result.
\<close>

definition z_transform :: "(string \<Rightarrow> string) \<Rightarrow> ZodSchema \<Rightarrow> ZodSchema" where
  "z_transform f schema path input =
     (let (issues, v) = schema path input in
      if issues = [] then ([], map_option f v) else (issues, None))"

text \<open>
  \<open>.refine(check, {message})\<close>: the check runs on the value of the inner result, also when
  that result is dirty, and a failing check adds one issue of code \<open>custom\<close>. On an aborted
  inner result the check does not run.
\<close>

definition z_refine :: "(string \<Rightarrow> bool) \<Rightarrow> string \<Rightarrow> ZodSchema \<Rightarrow> ZodSchema" where
  "z_refine check msg schema path input =
     (let (issues, v) = schema path input in
      case v of
        None \<Rightarrow> (issues, None)
      | Some val \<Rightarrow>
          (issues @ (if check val then []
                     else [\<lparr>issue_code = custom, issue_path = path, issue_message = msg\<rparr>]),
           Some val))"

text \<open>
  \<open>a.or(b)\<close>: the first valid option is the result; when neither is valid, the result is that
  of the first dirty option, with its issues; when both are aborted, the result is aborted
  with one issue of code \<open>invalid_union\<close>.
\<close>

definition z_or :: "ZodSchema \<Rightarrow> ZodSchema \<Rightarrow> ZodSchema" where
  "z_or a b path input =
     (let ra = a path input in
      if fst ra = [] then ra
      else let rb = b path input in
           if fst rb = [] then rb
           else if snd ra = None then
             (if snd rb = None
              then ([\<lparr>issue_code = invalid_union, issue_path = path,
                      issue_message = ''Invalid input''\<rparr>], None)
              else rb)
           else ra)"

text \<open>The value of a field of a parse without issues.\<close>

definition parsed :: "ZodIssue list \<times> string option \<Rightarrow> string" where
  "parsed r = (case snd r of None \<Rightarrow> [] | Some v \<Rightarrow> v)"

text \<open>On a string, \<open>.optional()\<close> and \<open>.default(d)\<close> hand the input to the inner schema.\<close>

definition z_optional :: "ZodSchema \<Rightarrow> ZodSchema" where
  "z_optional schema = schema"

definition z_default :: "string \<Rightarrow> ZodSchema \<Rightarrow> ZodSchema" where
  "z_default d schema = schema"

section \<open>Number(val) on strings\<close>

text \<open>
  The refinement of a dimension asks \<open>!isNaN(Number(val)) && Number(val) >= 0\<close>. For a string,
  \<open>Number\<close> reads the grammar \<open>StringNumericLiteral\<close>: optional white space around nothing (the
  value 0), a hexadecimal, octal or binary integer, or a signed decimal literal, which may be
  \<open>Infinity\<close>. Any other string is \<open>NaN\<close>. A literal with a minus sign is not below zero
  exactly when its value rounds to \<open>-0\<close>: when its digits are all zero or its magnitude is at
  most \<open>2^-1075\<close>, half of the smallest positive double.
\<close>

datatype NumberSign = NaN | Negative | NonNegative

definition isHexDigit :: "char \<Rightarrow> bool" where
  "isHexDigit c = (let n = (of_char c :: nat) in
     isDigit c \<or> (97 \<le> n \<and> n \<le> 102) \<or> (65 \<le> n \<and> n \<le> 70))"

definition isOctalDigit :: "char \<Rightarrow> bool" where
  "isOctalDigit c = (let n = (of_char c :: nat) in 48 \<le> n \<and> n \<le> 55)"

definition isBinaryDigit :: "char \<Rightarrow> bool" where
  "isBinaryDigit c = (c = CHR ''0'' \<or> c = CHR ''1'')"

fun digitsValue :: "int \<Rightarrow> string \<Rightarrow> int" where
  "digitsValue acc [] = acc"
| "digitsValue acc (c # cs) = digitsValue (10 * acc + ((of_char c :: int) - 48)) cs"

definition nonDecimalIntegerLiteral :: "string \<Rightarrow> bool" where
  "nonDecimalIntegerLiteral s =
     (case s of
        z # p # ds \<Rightarrow>
          z = CHR ''0'' \<and> ds \<noteq> [] \<and>
          ((p = CHR ''x'' \<or> p = CHR ''X'') \<and> list_all isHexDigit ds
           \<or> (p = CHR ''o'' \<or> p = CHR ''O'') \<and> list_all isOctalDigit ds
           \<or> (p = CHR ''b'' \<or> p = CHR ''B'') \<and> list_all isBinaryDigit ds)
      | _ \<Rightarrow> False)"

text \<open>The exponent part: absent (0), or \<open>e\<close> or \<open>E\<close>, an optional sign and at least one digit.\<close>

definition exponentPart :: "string \<Rightarrow> int option" where
  "exponentPart s =
     (case s of
        [] \<Rightarrow> Some 0
      | c # r \<Rightarrow>
          if c = CHR ''e'' \<or> c = CHR ''E'' then
            (let neg = (r \<noteq> [] \<and> hd r = CHR ''-'');
                 ds = (if r \<noteq> [] \<and> (hd r = CHR ''-'' \<or> hd r = CHR ''+'') then tl r else r) in
             if ds \<noteq> [] \<and> list_all isDigit ds
             then Some (if neg then - digitsValue 0 ds else digitsValue 0 ds)
             else None)
          else None)"

text \<open>
  An unsigned decimal literal other than \<open>Infinity\<close>, as its digits read as one integer and
  the power of ten that scales it.
\<close>

definition unsignedDecimalLiteral :: "string \<Rightarrow> (int \<times> int) option" where
  "unsignedDecimalLiteral s =
     (let d1 = takeWhile isDigit s;
          r1 = dropWhile isDigit s;
          dot = (r1 \<noteq> [] \<and> hd r1 = CHR ''.'');
          d2 = (if dot then takeWhile isDigit (tl r1) else []);
          r2 = (if dot then dropWhile isDigit (tl r1) else r1) in
      if d1 = [] \<and> d2 = [] then None
      else case exponentPart r2 of
             None \<Rightarrow> None
           | Some e \<Rightarrow> Some (digitsValue 0 (d1 @ d2), e - int (length d2)))"

definition roundsToZero :: "int \<Rightarrow> int \<Rightarrow> bool" where
  "roundsToZero m e = (m = 0 \<or> (e < 0 \<and> m * 2 ^ 1075 \<le> 10 ^ nat (- e)))"

definition Number_sign :: "string \<Rightarrow> NumberSign" where
  "Number_sign val =
     (let s = trim val in
      if s = [] then NonNegative
      else if nonDecimalIntegerLiteral s then NonNegative
      else
        let neg = (hd s = CHR ''-'');
            u = (if hd s = CHR ''-'' \<or> hd s = CHR ''+'' then tl s else s) in
        if u = ''Infinity'' then (if neg then Negative else NonNegative)
        else case unsignedDecimalLiteral u of
               None \<Rightarrow> NaN
             | Some (m, e) \<Rightarrow> if neg \<and> \<not> roundsToZero m e then Negative else NonNegative)"

section \<open>The schemas of the program\<close>

text \<open>\<open>String.prototype.replace\<close> with a string pattern: the first occurrence only.\<close>

fun replaceFirstChar :: "char \<Rightarrow> char \<Rightarrow> string \<Rightarrow> string" where
  "replaceFirstChar a b [] = []"
| "replaceFirstChar a b (c # cs) = (if c = a then b # cs else c # replaceFirstChar a b cs)"

definition BarcodeSchema :: ZodSchema where
  "BarcodeSchema =
     z_refine (\<lambda>val. length val \<ge> 3)
       (''C'' @ [CHR 0xF3] @ ''digo de barras deve ter pelo menos 3 caracteres'')
       (z_transform trim
          (z_min 1 (''C'' @ [CHR 0xF3] @ ''digo de barras '' @ [CHR 0xE9] @ '' obrigat''
                    @ [CHR 0xF3] @ ''rio'') z_string))"

definition DimensionValueSchema :: ZodSchema where
  "DimensionValueSchema =
     z_or
       (z_refine (\<lambda>val. val = [] \<or> Number_sign val = NonNegative)
          (''Deve ser um n'' @ [CHR 0xFA] @ ''mero positivo'')
          (z_transform (\<lambda>val. replaceFirstChar (CHR '','') (CHR ''.'') (trim val)) z_string))
       (z_length 0 ''String must contain exactly 0 character(s)'' z_string)"

definition ClientNameSchema :: ZodSchema where
  "ClientNameSchema =
     z_optional
       (z_transform trim
          (z_max 100 ''Nome do cliente muito longo''
             (z_min 0 ''String must contain at least 0 character(s)'' z_string)))"

record CsvRow =
  row_clientCode :: string
  row_clientName :: string
  row_projectName :: string
  row_barcode :: string
  row_pieceModule :: string
  row_pieceName :: string
  row_comprimento :: string
  row_largura :: string
  row_espessura :: string
  row_material :: string
  row_cor :: string

text \<open>
  \<open>CsvRowSchema.safeParse\<close>: the fields are parsed in the order of the schema, each under its
  own name as path, and all issues are collected. The parse succeeds when there is none.
\<close>

definition CsvRowSchema :: "CsvRow \<Rightarrow> ZodIssue list + CsvRow" where
  "CsvRowSchema rawData =
     (let clientCode = z_min 1 (''C'' @ [CHR 0xF3] @ ''digo do cliente ausente'') z_string
                         [''clientCode''] (row_clientCode rawData);
          clientName = z_transform trim (z_min 1 ''Nome do cliente ausente'' z_string)
                         [''clientName''] (row_clientName rawData);
          projectName = z_min 1 ''Nome do projeto ausente'' z_string
                         [''projectName''] (row_projectName rawData);
          barcode = BarcodeSchema [''barcode''] (row_barcode rawData);
          pieceModule = z_optional z_string [''pieceModule''] (row_pieceModule rawData);
          pieceName = z_optional z_string [''pieceName''] (row_pieceName rawData);
          comprimento = DimensionValueSchema [''comprimento''] (row_comprimento rawData);
          largura = DimensionValueSchema [''largura''] (row_largura rawData);
          espessura = DimensionValueSchema [''espessura''] (row_espessura rawData);
          material = z_optional z_string [''material''] (row_material rawData);
          cor = z_optional z_string [''cor''] (row_cor rawData);
          issues = fst clientCode @ fst clientName @ fst projectName @ fst barcode
                   @ fst pieceModule @ fst pieceName @ fst comprimento @ fst largura
                   @ fst espessura @ fst material @ fst cor in
      if issues = [] then
        Inr \<lparr>row_clientCode = parsed clientCode, row_clientName = parsed clientName,
             row_projectName = parsed projectName, row_barcode = parsed barcode,
             row_pieceModule = parsed pieceModule, row_pieceName = parsed pieceName,
             row_comprimento = parsed comprimento, row_largura = parsed largura,
             row_espessura = parsed espessura, row_material = parsed material,
             row_cor = parsed cor\<rparr>
      else Inl issues)"

datatype ImportContext = CSV | PDF

text \<open>\<open>Array.prototype.join\<close> with a separator.\<close>

fun join :: "string \<Rightarrow> string list \<Rightarrow> string" where
  "join sep [] = []"
| "join sep [x] = x"
| "join sep (x # y # ys) = x @ sep @ join sep (y # ys)"

definition mapZodErrorToImportError :: "ZodIssue \<Rightarrow> nat \<Rightarrow> ImportContext \<Rightarrow> ImportError" where
  "mapZodErrorToImportError issue rowIndex context =
     (let path = issue_path issue;
          type0 = VALIDATION_ERROR;
          severity0 = ERROR;
          type1 = (if ''barcode'' \<in> set path then INVALID_BARCODE_FORMAT else type0);
          isMeasure = (''comprimento'' \<in> set path \<or> ''largura'' \<in> set path);
          type2 = (if isMeasure then INVALID_MEASUREMENTS else type1);
          severity = (if isMeasure then WARNING else severity0);
          type3 = (if ''clientName'' \<in> set path \<or> ''cliente'' \<in> set path
                   then MISSING_CLIENT_INFO else type2) in
      \<lparr>err_type = type3,
       err_message = issue_message issue,
       err_suggestion = ''Verifique o campo '' @ [CHR 0x27] @ join ''.'' path @ [CHR 0x27],
       err_lineNumber = (if context = CSV then Some rowIndex else None),
       err_pageNumber = (if context = CSV then None else Some rowIndex),
       err_field = Some (case path of [] \<Rightarrow> ''undefined'' | p # _ \<Rightarrow> p),
       err_value = Some (if issue_code issue = invalid_type then ''Tipo Inv'' @ [CHR 0xE1] @ ''lido''
                         else ''Formato Inv'' @ [CHR 0xE1] @ ''lido''),
       err_severity = severity\<rparr>)"

section \<open>Reading the rows of the CSV file\<close>

text \<open>\<open>String.prototype.split\<close> with a one-character separator.\<close>

fun split :: "char \<Rightarrow> string \<Rightarrow> string list" where
  "split sep [] = [[]]"
| "split sep (c # cs) =
     (if c = sep then [] # split sep cs
      else case split sep cs of
             [] \<Rightarrow> [[c]]
           | x # xs \<Rightarrow> (c # x) # xs)"

text \<open>\<open>col.replace(/^"|"$/g, '')\<close>: a quote at the start and a quote at the end are removed.\<close>

definition stripQuotes :: "string \<Rightarrow> string" where
  "stripQuotes col =
     (let r = (if col \<noteq> [] \<and> hd col = CHR 0x22 then tl col else col) in
      if r \<noteq> [] \<and> last r = CHR 0x22 then butlast r else r)"

definition parseCols :: "string \<Rightarrow> string list" where
  "parseCols line = map (\<lambda>col. stripQuotes (trim col)) (split (CHR '','') line)"

text \<open>Decimal digits of a number, as a template literal prints it.\<close>

function showNat :: "nat \<Rightarrow> string" where
  "showNat n =
     (if n < 10 then [char_of (48 + n)]
      else showNat (n div 10) @ [char_of (48 + n mod 10)])"
  by pat_completeness auto
termination
  by (relation "measure (\<lambda>n. n)") auto

declare showNat.simps [simp del]

text \<open>
  The fixed column indices of the Haixun layout. The loop reads them from rows of at least 17
  columns only.
\<close>

definition rawDataOf :: "string list \<Rightarrow> CsvRow" where
  "rawDataOf cols =
     \<lparr>row_clientCode = cols ! 16, row_clientName = cols ! 13, row_projectName = cols ! 8,
      row_barcode = cols ! 11, row_pieceModule = cols ! 2, row_pieceName = cols ! 3,
      row_comprimento = cols ! 4, row_largura = cols ! 5, row_espessura = cols ! 6,
      row_material = cols ! 9, row_cor = cols ! 10\<rparr>"

text \<open>The piece built from a validated row; \<open>a || b\<close> on strings is \<open>b\<close> when \<open>a\<close> is empty.\<close>

definition orElse :: "string \<Rightarrow> string \<Rightarrow> string" where
  "orElse a b = (if a = [] then b else a)"

definition mkPiece :: "string \<Rightarrow> CsvRow \<Rightarrow> Piece" where
  "mkPiece ws validData =
     \<lparr>piece_id = mk_piece_id ws (row_barcode validData),
      workspaceId = ws,
      nome = orElse (row_pieceName validData)
               (''Pe'' @ [CHR 0xE7] @ ''a '' @ row_barcode validData),
      modulo = orElse (row_pieceModule validData) [],
      projeto = row_projectName validData,
      cliente = row_clientName validData,
      medidas = orElse (row_comprimento validData) ''0'' @ ''x''
                @ orElse (row_largura validData) ''0'' @ ''x''
                @ orElse (row_espessura validData) ''0'',
      material = Some (orElse (row_material validData) []),
      cor = Some (orElse (row_cor validData) []),
      status = PENDENTE,
      producedAt = None, producedBy = None, scanHistory = None\<rparr>"

text \<open>
  A \<open>Map\<close> is an association list in insertion order (\<open>AList.update\<close> keeps the place of a key
  that is present and appends a new one), a \<open>Set\<close> a list without repetition.
\<close>

definition setAdd :: "'a \<Rightarrow> 'a list \<Rightarrow> 'a list" where
  "setAdd x xs = (if x \<in> set xs then xs else xs @ [x])"

record ClientInfo =
  ci_clientCode :: string
  ci_clientName :: string
  ci_projects :: "string list"

record AnalyzeAcc =
  tempPecas :: "Piece list"
  clientMap :: "(string \<times> ClientInfo) list"
  errorsList :: "ImportError list"
  linhasProcessadas :: nat

definition emptyAcc :: AnalyzeAcc where
  "emptyAcc = \<lparr>tempPecas = [], clientMap = [], errorsList = [], linhasProcessadas = 0\<rparr>"

text \<open>The end of the loop body, for a row that passed validation.\<close>

definition acceptRow :: "string \<Rightarrow> CsvRow \<Rightarrow> AnalyzeAcc \<Rightarrow> AnalyzeAcc" where
  "acceptRow ws validData acc =
     (let cm1 = (if map_of (clientMap acc) (row_clientCode validData) = None
                 then AList.update (row_clientCode validData)
                        \<lparr>ci_clientCode = row_clientCode validData,
                         ci_clientName = row_clientName validData,
                         ci_projects = []\<rparr> (clientMap acc)
                 else clientMap acc);
          cm2 = (case map_of cm1 (row_clientCode validData) of
                   None \<Rightarrow> cm1
                 | Some ci \<Rightarrow>
                     AList.update (row_clientCode validData)
                       (ci\<lparr>ci_projects := setAdd (row_projectName validData) (ci_projects ci)\<rparr>) cm1) in
      acc\<lparr>tempPecas := tempPecas acc @ [mkPiece ws validData],
          clientMap := cm2,
          linhasProcessadas := linhasProcessadas acc + 1\<rparr>)"

text \<open>
  The body of the loop over the lines, for the line at index \<open>i\<close> of the file: a blank line
  is passed over, a line with fewer than 17 columns is reported and skipped, a row that fails
  validation is reported issue by issue and skipped, and a valid row is accepted.
\<close>

definition analyzeRow :: "string \<Rightarrow> nat \<Rightarrow> string \<Rightarrow> AnalyzeAcc \<Rightarrow> AnalyzeAcc" where
  "analyzeRow ws i rawLine acc =
     (let line = trim rawLine in
      if line = [] then acc
      else
        let cols = parseCols line in
        if length cols < 17 then
          acc\<lparr>errorsList := errorsList acc @
            [\<lparr>err_type = MISSING_REQUIRED_COLUMN,
              err_message = ''Linha com colunas insuficientes ('' @ showNat (length cols) @ '')'',
              err_suggestion = ''A linha deve ter pelo menos 17 colunas'',
              err_lineNumber = Some (i + 1),
              err_pageNumber = None,
              err_field = None,
              err_value = Some (take 30 line @ ''...''),
              err_severity = WARNING\<rparr>]\<rparr>
        else
          case CsvRowSchema (rawDataOf cols) of
            Inl issues \<Rightarrow>
              acc\<lparr>errorsList := errorsList acc @
                    map (\<lambda>issue. mapZodErrorToImportError issue (i + 1) CSV) issues\<rparr>
          | Inr validData \<Rightarrow> acceptRow ws validData acc)"

text \<open>\<open>for (let i = 1; i < lines1.length; i++)\<close>, started with the lines after the first.\<close>

fun analyzeLoop :: "string \<Rightarrow> nat \<Rightarrow> string list \<Rightarrow> AnalyzeAcc \<Rightarrow> AnalyzeAcc" where
  "analyzeLoop ws i [] acc = acc"
| "analyzeLoop ws i (l # ls) acc = analyzeLoop ws (Suc i) ls (analyzeRow ws i l acc)"

section \<open>The preview of an analysis\<close>

record ProjectPreview =
  pp_name :: string
  pp_pieceCount :: nat
  pp_moduleCount :: nat

record ClientPreviewGroup =
  pg_clientCode :: string
  pg_clientName :: string
  pg_totalProjects :: nat
  pg_totalModules :: nat
  pg_totalPieces :: nat
  pg_projects :: "ProjectPreview list"
  pg_isValid :: bool

text \<open>One step of the \<open>forEach\<close> that fills \<open>projectStats\<close>.\<close>

definition addToStats ::
  "Piece \<Rightarrow> (string \<times> nat \<times> string list) list \<Rightarrow> (string \<times> nat \<times> string list) list" where
  "addToStats p projectStats =
     (let ps1 = (if map_of projectStats (projeto p) = None
                 then AList.update (projeto p) (0, []) projectStats else projectStats) in
      case map_of ps1 (projeto p) of
        None \<Rightarrow> ps1
      | Some (pieceCount, modules) \<Rightarrow>
          AList.update (projeto p) (pieceCount + 1, setAdd (modulo p) modules) ps1)"

definition projectStatsOf :: "string \<Rightarrow> Piece list \<Rightarrow> (string \<times> nat \<times> string list) list" where
  "projectStatsOf clientName pecas =
     foldl (\<lambda>stats p. addToStats p stats) [] (filter (\<lambda>p. cliente p = clientName) pecas)"

definition clientPreview :: "ClientInfo \<Rightarrow> Piece list \<Rightarrow> ClientPreviewGroup" where
  "clientPreview clientInfo pecas =
     (let projectList =
            map (\<lambda>(projName, pieceCount, modules).
                   \<lparr>pp_name = projName, pp_pieceCount = pieceCount,
                    pp_moduleCount = length modules\<rparr>)
              (projectStatsOf (ci_clientName clientInfo) pecas) in
      \<lparr>pg_clientCode = ci_clientCode clientInfo,
       pg_clientName = ci_clientName clientInfo,
       pg_totalProjects = length projectList,
       pg_totalModules = foldl (\<lambda>sum p. sum + pp_moduleCount p) 0 projectList,
       pg_totalPieces = foldl (\<lambda>sum p. sum + pp_pieceCount p) 0 projectList,
       pg_projects = projectList,
       pg_isValid = True\<rparr>)"

definition previewList :: "(string \<times> ClientInfo) list \<Rightarrow> Piece list \<Rightarrow> ClientPreviewGroup list" where
  "previewList cm pecas = map (\<lambda>(k, clientInfo). clientPreview clientInfo pecas) cm"

text \<open>
  The aggregation of a list of validated rows: the rows are accepted in order, and the preview
  is computed from the client map and the pieces that result.
\<close>

definition acceptRows :: "string \<Rightarrow> CsvRow list \<Rightarrow> AnalyzeAcc" where
  "acceptRows ws rows = foldl (\<lambda>acc validData. acceptRow ws validData acc) emptyAcc rows"

definition aggregate :: "string \<Rightarrow> CsvRow list \<Rightarrow> ClientPreviewGroup list" where
  "aggregate ws rows =
     previewList (clientMap (acceptRows ws rows)) (tempPecas (acceptRows ws rows))"

text \<open>
  What a preview says about a project of a client: the piece count and the count of distinct
  modules of the entry with that client code and that project name.
\<close>

definition previewCounts :: "ClientPreviewGroup list \<Rightarrow> string \<Rightarrow> string \<Rightarrow> (nat \<times> nat) option" where
  "previewCounts preview clientCode projName =
     (case find (\<lambda>g. pg_clientCode g = clientCode) preview of
        None \<Rightarrow> None
      | Some g \<Rightarrow>
          (case find (\<lambda>p. pp_name p = projName) (pg_projects g) of
             None \<Rightarrow> None
           | Some p \<Rightarrow> Some (pp_pieceCount p, pp_moduleCount p)))"

text \<open>
  The errors the loop body reports for one line, and the issues of the validation of a row.
\<close>

definition rowErrors :: "string \<Rightarrow> nat \<Rightarrow> string \<Rightarrow> ImportError list" where
  "rowErrors ws i rawLine = errorsList (analyzeRow ws i rawLine emptyAcc)"

definition rowIssues :: "CsvRow \<Rightarrow> ZodIssue list" where
  "rowIssues rawData = (case CsvRowSchema rawData of Inl issues \<Rightarrow> issues | Inr _ \<Rightarrow> [])"

text \<open>
  A dimension field that the refinement of \<open>DimensionValueSchema\<close> rejects: after trimming and
  the replacement of the comma it is neither empty nor a number that is at least zero.
\<close>

definition invalidDimension :: "string \<Rightarrow> bool" where
  "invalidDimension val =
     (let v = replaceFirstChar (CHR '','') (CHR ''.'') (trim val) in
      v \<noteq> [] \<and> Number_sign v \<noteq> NonNegative)"

text \<open>The errors of a given kind, and the errors reported for a given field.\<close>

definition errorsOfType :: "ImportErrorType \<Rightarrow> ImportError list \<Rightarrow> ImportError list" where
  "errorsOfType t errors = filter (\<lambda>e. err_type e = t) errors"

definition errorsOfField :: "string \<Rightarrow> ImportError list \<Rightarrow> ImportError list" where
  "errorsOfField f errors = filter (\<lambda>e. err_field e = Some f) errors"

section \<open>Staging and commit of the CSV import\<close>

record ImportStatus =
  status_type :: "MsgType option"
  status_message :: string

record PendingData =
  pd_tempPecas :: "Piece list"
  pd_clientProjects :: "ClientInfo list"

text \<open>
  The selected file: its size in bytes, and the text \<open>readFileAsText\<close> resolves to (\<open>None\<close>
  when the read is rejected).
\<close>

record File =
  file_size :: nat
  file_text :: "string option"

record ImportState = Db +
  isProcessingImport :: bool
  loading :: bool
  importStatus :: ImportStatus
  importErrors :: "ImportError list"
  previewData :: "ClientPreviewGroup list option"
  pendingData :: "PendingData option"
  pecasFile :: "File option"

definition MAX_FILE_SIZE :: nat where
  "MAX_FILE_SIZE = 10 * 1024 * 1024"

definition MIN_ROWS_REQUIRED :: nat where
  "MIN_ROWS_REQUIRED = 2"

text \<open>
  \<open>detectAndFixEncoding\<close> splits the text into lines, removes a byte order mark (U+FEFF) at
  the start of each line and joins the lines again. That code unit is outside the modelled
  range, so no line changes.
\<close>

definition detectAndFixEncoding :: "string \<Rightarrow> string" where
  "detectAndFixEncoding content = join [CHR 0x0A] (split (CHR 0x0A) content)"

text \<open>
  \<open>handleAnalyze\<close> up to its first \<open>await\<close>: the guard, the reset of the previous results
  and the checks on the file. When these pass, the in-flight flag is set and the run goes on
  with \<open>handleAnalyze_run\<close>.
\<close>

definition analyzeStarts :: "ImportState \<Rightarrow> bool" where
  "analyzeStarts st =
     (\<not> isProcessingImport st \<and>
      (case pecasFile st of None \<Rightarrow> False | Some f \<Rightarrow> \<not> file_size f > MAX_FILE_SIZE))"

definition handleAnalyze_begin :: "ImportState \<Rightarrow> ImportState" where
  "handleAnalyze_begin st =
     (if isProcessingImport st then st
      else
        let st1 = st\<lparr>importStatus := \<lparr>status_type = None, status_message = []\<rparr>,
                     importErrors := [], previewData := None, pendingData := None\<rparr> in
        case pecasFile st1 of
          None \<Rightarrow>
            st1\<lparr>importStatus := \<lparr>status_type = Some MsgError,
               status_message = ''Erro: Selecione a planilha de etiquetas (pe'' @ [CHR 0xE7]
                                @ ''as).''\<rparr>\<rparr>
        | Some f \<Rightarrow>
            if file_size f > MAX_FILE_SIZE then
              st1\<lparr>importStatus := \<lparr>status_type = Some MsgError,
                 status_message = ''Erro: Arquivo muito grande. M'' @ [CHR 0xE1]
                                  @ ''ximo 10MB.''\<rparr>\<rparr>
            else st1\<lparr>isProcessingImport := True, loading := True\<rparr>)"

text \<open>The \<open>finally\<close> block of \<open>handleAnalyze\<close> and of \<open>handleConfirm\<close>.\<close>

definition finallyImport :: "ImportState \<Rightarrow> ImportState" where
  "finallyImport st = st\<lparr>loading := False, isProcessingImport := False\<rparr>"

definition handleAnalyze_run :: "string \<Rightarrow> File \<Rightarrow> ImportState \<Rightarrow> ImportState" where
  "handleAnalyze_run ws f st =
     finallyImport
       (case file_text f of
          None \<Rightarrow>
            st\<lparr>importErrors :=
                 [\<lparr>err_type = GENERIC_SYSTEM_ERROR,
                   err_message = ''Erro desconhecido ao processar arquivo'',
                   err_suggestion = ''Tente salvar o arquivo novamente como CSV UTF-8'',
                   err_lineNumber = None, err_pageNumber = None, err_field = None,
                   err_value = None, err_severity = CRITICAL\<rparr>],
               importStatus := \<lparr>status_type = Some MsgError,
                 status_message = ''Erro cr'' @ [CHR 0xED] @ ''tico na importa'' @ [CHR 0xE7, CHR 0xE3]
                                  @ ''o.''\<rparr>\<rparr>
        | Some labelContentRaw \<Rightarrow>
            let lines1 = split (CHR 0x0A) (detectAndFixEncoding labelContentRaw) in
            if length lines1 < MIN_ROWS_REQUIRED then
              st\<lparr>importErrors :=
                   [\<lparr>err_type = CSV_PARSE_ERROR,
                     err_message = ''Arquivo vazio ou com linhas insuficientes'',
                     err_suggestion = ''Verifique se o arquivo CSV cont'' @ [CHR 0xE9] @ ''m dados'',
                     err_lineNumber = None, err_pageNumber = None, err_field = None,
                     err_value = None, err_severity = CRITICAL\<rparr>],
                 importStatus := \<lparr>status_type = Some MsgError,
                   status_message = ''Arquivo inv'' @ [CHR 0xE1] @ ''lido.''\<rparr>\<rparr>
            else
              let acc = analyzeLoop ws 1 (tl lines1) emptyAcc;
                  st2 = st\<lparr>importErrors := errorsList acc\<rparr> in
              if tempPecas acc = [] then
                st2\<lparr>importStatus := \<lparr>status_type = Some MsgError,
                   status_message = ''Erro: Nenhuma pe'' @ [CHR 0xE7] @ ''a v'' @ [CHR 0xE1]
                                    @ ''lida encontrada.''\<rparr>\<rparr>
              else
                let totalErrors = length (filter (\<lambda>e. err_severity e \<noteq> WARNING) (errorsList acc)) in
                st2\<lparr>previewData := Some (previewList (clientMap acc) (tempPecas acc)),
                    pendingData := Some \<lparr>pd_tempPecas = tempPecas acc,
                                         pd_clientProjects = map snd (clientMap acc)\<rparr>,
                    importStatus :=
                      (if totalErrors > 0 then
                         \<lparr>status_type = Some MsgError,
                          status_message = ''An'' @ [CHR 0xE1] @ ''lise com '' @ showNat totalErrors
                            @ '' erros e '' @ showNat (linhasProcessadas acc) @ '' linhas v''
                            @ [CHR 0xE1] @ ''lidas.''\<rparr>
                       else
                         \<lparr>status_type = Some MsgSuccess,
                          status_message = ''An'' @ [CHR 0xE1] @ ''lise conclu'' @ [CHR 0xED] @ ''da: ''
                            @ showNat (length (tempPecas acc)) @ '' pe'' @ [CHR 0xE7] @ ''as.''\<rparr>)\<rparr>)"

definition handleAnalyze :: "string \<Rightarrow> ImportState \<Rightarrow> ImportState" where
  "handleAnalyze ws st =
     (let st1 = handleAnalyze_begin st in
      case pecasFile st of
        None \<Rightarrow> st1
      | Some f \<Rightarrow> if analyzeStarts st then handleAnalyze_run ws f st1 else st1)"

text \<open>
  The batched write of the pieces: \<open>batch.set\<close> of every staged piece under its id, in order.
  The batch also writes one project document for each client and project; no property below
  is about the collection of projects, which is not modelled.
\<close>

definition batchSetPieces :: "Piece list \<Rightarrow> PieceStore \<Rightarrow> PieceStore" where
  "batchSetPieces pecas db = foldl (\<lambda>m p. m(piece_id p \<mapsto> p)) db pecas"

text \<open>
  \<open>handleConfirm\<close>: the guard, then the flags of a run in flight (\<open>handleConfirm_begin\<close>), then
  the commit of the batch, which the store applies as a whole or rejects as a whole
  (\<open>commitOk\<close>).
\<close>

definition handleConfirm_begin :: "ImportState \<Rightarrow> ImportState" where
  "handleConfirm_begin st =
     (if pendingData st = None \<or> isProcessingImport st then st
      else st\<lparr>isProcessingImport := True, loading := True\<rparr>)"

definition handleConfirm_run :: "bool \<Rightarrow> PendingData \<Rightarrow> ImportState \<Rightarrow> ImportState" where
  "handleConfirm_run commitOk pd st =
     finallyImport
       (if commitOk then
          st\<lparr>db_pieces := batchSetPieces (pd_tempPecas pd) (db_pieces st),
             importStatus := \<lparr>status_type = Some MsgSuccess,
               status_message = ''Importa'' @ [CHR 0xE7, CHR 0xE3] @ ''o realizada com sucesso!''\<rparr>,
             previewData := None,
             pendingData := None,
             pecasFile := None,
             importErrors := []\<rparr>
        else
          st\<lparr>importStatus := \<lparr>status_type = Some MsgError,
               status_message = ''Erro ao gravar dados.''\<rparr>\<rparr>)"

definition handleConfirm :: "bool \<Rightarrow> ImportState \<Rightarrow> ImportState" where
  "handleConfirm commitOk st =
     (case pendingData st of
        None \<Rightarrow> st
      | Some pd \<Rightarrow>
          if isProcessingImport st then st
          else handleConfirm_run commitOk pd (handleConfirm_begin st))"

definition handleCancel :: "ImportState \<Rightarrow> ImportState" where
  "handleCancel st =
     st\<lparr>previewData := None, pendingData := None, pecasFile := None, importErrors := [],
        importStatus := \<lparr>status_type = None, status_message = []\<rparr>\<rparr>"

section \<open>The PDF import\<close>

record PromobItem =
  item_id :: string
  item_cliente :: string
  item_projeto :: string
  item_modulo :: string
  item_peca :: string
  item_obs :: string
  item_codItem :: string
  item_medidas :: string
  item_isValid :: bool
  item_errors :: "string list"

text \<open>The object handed to \<open>PdfItemSchema\<close>, and the object it returns.\<close>

record PdfItem =
  raw_cliente :: string
  raw_projeto :: string
  raw_modulo :: string
  raw_peca :: string
  raw_codItem :: string
  raw_medidas :: string
  raw_obs :: string

definition PdfItemSchema :: "PdfItem \<Rightarrow> ZodIssue list + PdfItem" where
  "PdfItemSchema rawItem =
     (let cliente = ClientNameSchema [''cliente''] (raw_cliente rawItem);
          projeto = z_default [] z_string [''projeto''] (raw_projeto rawItem);
          modulo = z_default [] z_string [''modulo''] (raw_modulo rawItem);
          peca = z_default [] z_string [''peca''] (raw_peca rawItem);
          codItem = BarcodeSchema [''codItem''] (raw_codItem rawItem);
          medidas = z_default [] z_string [''medidas''] (raw_medidas rawItem);
          obs = z_default [] z_string [''obs''] (raw_obs rawItem);
          issues = fst cliente @ fst projeto @ fst modulo @ fst peca @ fst codItem
                   @ fst medidas @ fst obs in
      if issues = [] then
        Inr \<lparr>raw_cliente = parsed cliente, raw_projeto = parsed projeto, raw_modulo = parsed modulo,
             raw_peca = parsed peca, raw_codItem = parsed codItem, raw_medidas = parsed medidas,
             raw_obs = parsed obs\<rparr>
      else Inl issues)"

text \<open>
  The text of one cell of a page, as the seven regular expressions of \<open>processPdfFile\<close> match
  it: the first capture group of each match (the whole match for the measures), or \<open>None\<close>.
\<close>

record CellMatches =
  clienteMatch :: "string option"
  projetoMatch :: "string option"
  moduloMatch :: "string option"
  pecaMatch :: "string option"
  obsMatch :: "string option"
  codMatch :: "string option"
  medidasMatch :: "string option"

definition matchOr :: "string option \<Rightarrow> string" where
  "matchOr m = (case m of None \<Rightarrow> [] | Some v \<Rightarrow> v)"

text \<open>\<open>String.prototype.endsWith\<close>.\<close>

definition endsWith :: "string \<Rightarrow> string \<Rightarrow> bool" where
  "endsWith s suffix = (length suffix \<le> length s \<and> drop (length s - length suffix) s = suffix)"

text \<open>
  The body of \<open>cells.forEach\<close> for a cell with text, on page \<open>i\<close>: the item pushed to
  \<open>extractedItems\<close> (\<open>None\<close> when the cell is passed over) and the errors pushed to
  \<open>parsingErrors\<close>. \<open>pieces\<close> is the loaded piece set and \<open>uuid\<close> the result of
  \<open>crypto.randomUUID()\<close>.
\<close>

definition processCell ::
  "Piece list \<Rightarrow> nat \<Rightarrow> string \<Rightarrow> CellMatches \<Rightarrow> PromobItem option \<times> ImportError list" where
  "processCell pieces i uuid m =
     (let rawCod = (case codMatch m of None \<Rightarrow> [] | Some c \<Rightarrow> trim c) in
      if rawCod = [] \<and> pecaMatch m = None then (None, [])
      else
        let rawItem = \<lparr>raw_cliente = matchOr (clienteMatch m),
                       raw_projeto = matchOr (projetoMatch m),
                       raw_modulo = matchOr (moduloMatch m),
                       raw_peca = matchOr (pecaMatch m),
                       raw_codItem = rawCod,
                       raw_medidas = matchOr (medidasMatch m),
                       raw_obs = matchOr (obsMatch m)\<rparr>;
            validation = PdfItemSchema rawItem;
            issues = (case validation of Inl is \<Rightarrow> is | Inr _ \<Rightarrow> []);
            itemErrors0 = map issue_message issues;
            parsingErrors = map (\<lambda>issue. mapZodErrorToImportError issue i PDF) issues;
            validData = (case validation of Inl _ \<Rightarrow> rawItem | Inr d \<Rightarrow> d);
            isDuplicate = list_ex (\<lambda>p. endsWith (piece_id p) (raw_codItem validData)) pieces;
            isValid = (issues = [] \<and> \<not> isDuplicate);
            itemErrors = itemErrors0 @
              (if isDuplicate then [''C'' @ [CHR 0xF3] @ ''digo j'' @ [CHR 0xE1] @ '' existe no sistema'']
               else []) in
        (Some \<lparr>item_id = uuid,
               item_cliente = trim (raw_cliente validData),
               item_projeto = trim (raw_projeto validData),
               item_modulo = trim (raw_modulo validData),
               item_peca = trim (raw_peca validData),
               item_obs = trim (raw_obs validData),
               item_codItem = trim (raw_codItem validData),
               item_medidas = trim (raw_medidas validData),
               item_isValid = isValid,
               item_errors = itemErrors\<rparr>,
         parsingErrors))"

text \<open>
  \<open>savePromobData\<close>: the barcode of an item is its \<open>codItem\<close> without the characters outside
  \<open>[a-zA-Z0-9]\<close>, in upper case, and the piece is written under the id of that barcode.
\<close>

definition alnumChar :: "char \<Rightarrow> bool" where
  "alnumChar c = (isLower c \<or> isUpper c \<or> isDigit c)"

definition promobBarcode :: "PromobItem \<Rightarrow> string" where
  "promobBarcode item = toUpperCase (filter alnumChar (item_codItem item))"

definition promobPiece :: "string \<Rightarrow> PromobItem \<Rightarrow> Piece" where
  "promobPiece ws item =
     (let barcode = promobBarcode item;
          pid = mk_piece_id ws barcode;
          projName = orElse (item_projeto item) (orElse (item_modulo item) ''Projeto Promob'');
          clientName = orElse (item_cliente item) ''Cliente Promob'' in
      \<lparr>piece_id = pid,
       workspaceId = ws,
       nome = orElse (item_peca item) (''Pe'' @ [CHR 0xE7] @ ''a '' @ barcode),
       modulo = item_modulo item,
       projeto = projName,
       cliente = clientName,
       medidas = item_medidas item,
       material = Some [],
       cor = Some [],
       status = PENDENTE,
       producedAt = None, producedBy = None, scanHistory = None\<rparr>)"

text \<open>The pieces of the batch of \<open>savePromobData\<close>: an item with an empty barcode writes none.\<close>

definition promobBatch :: "string \<Rightarrow> PromobItem list \<Rightarrow> Piece list" where
  "promobBatch ws validItems =
     map (promobPiece ws) (filter (\<lambda>item. promobBarcode item \<noteq> []) validItems)"

text \<open>The final validation of \<open>savePromobData\<close>, item by item.\<close>

definition revalidateItem :: "PromobItem \<Rightarrow> PromobItem" where
  "revalidateItem item =
     (let validation = PdfItemSchema
            \<lparr>raw_cliente = item_cliente item, raw_projeto = item_projeto item,
             raw_modulo = item_modulo item, raw_peca = item_peca item,
             raw_codItem = item_codItem item, raw_medidas = item_medidas item,
             raw_obs = item_obs item\<rparr>;
          errors0 = (case validation of Inl is \<Rightarrow> map issue_message is | Inr _ \<Rightarrow> []);
          noClient = (item_cliente item = [] \<or> trim (item_cliente item) = []);
          errors = errors0 @
            (if noClient then [''Nome do cliente '' @ [CHR 0xE9] @ '' obrigat'' @ [CHR 0xF3] @ ''rio'']
             else []) in
      item\<lparr>item_isValid := (errors0 = [] \<and> \<not> noClient), item_errors := errors\<rparr>)"

text \<open>
  The state of the PDF screen that \<open>savePromobData\<close> reads and the properties below are about:
  the store, the in-flight flag and the items of the review grid.
\<close>

record PdfState = Db +
  isProcessingPdf :: bool
  promobItems :: "PromobItem list"

definition savePromobData :: "string \<Rightarrow> bool \<Rightarrow> PdfState \<Rightarrow> PdfState" where
  "savePromobData ws commitOk st =
     (if isProcessingPdf st then st
      else
        let updatedItems = map revalidateItem (promobItems st);
            st1 = st\<lparr>promobItems := updatedItems\<rparr>;
            invalidItems = filter (\<lambda>i. \<not> item_isValid i) updatedItems;
            validItems = filter item_isValid updatedItems in
        if invalidItems \<noteq> [] then st1\<lparr>isProcessingPdf := False\<rparr>
        else if validItems = [] then st1\<lparr>isProcessingPdf := False\<rparr>
        else if commitOk then
          st1\<lparr>db_pieces := batchSetPieces (promobBatch ws validItems) (db_pieces st1),
              promobItems := [],
              isProcessingPdf := False\<rparr>
        else st1\<lparr>isProcessingPdf := False\<rparr>)"

section \<open>Auxiliary notions\<close>

text \<open>All issues of a list carry the given path.\<close>

definition pathIs :: "string list \<Rightarrow> ZodIssue list \<Rightarrow> bool" where
  "pathIs p issues = (\<forall>x \<in> set issues. issue_path x = p)"

text \<open>Every client code of the rows comes with one client name.\<close>

definition oneNamePerCode :: "CsvRow list \<Rightarrow> bool" where
  "oneNamePerCode rows =
     (\<forall>a \<in> set rows. \<forall>b \<in> set rows.
        row_clientCode a = row_clientCode b \<longrightarrow> row_clientName a = row_clientName b)"

text \<open>Every entry of a client map is stored under its own client code.\<close>

definition codesOK :: "(string \<times> ClientInfo) list \<Rightarrow> bool" where
  "codesOK cm = (\<forall>(k, ci) \<in> set cm. ci_clientCode ci = k)"

text \<open>
  The pieces of one client name and project in a list of pieces: how many there are, and how
  many distinct modules they have.
\<close>

definition countsOf :: "string \<Rightarrow> string \<Rightarrow> Piece list \<Rightarrow> (nat \<times> nat) option" where
  "countsOf n p pecas =
     (let qs = filter (\<lambda>q. cliente q = n \<and> projeto q = p) pecas in
      if qs = [] then None else Some (length qs, card (modulo ` set qs)))"

section \<open>Sample inputs\<close>

text \<open>Lines of a CSV file in the layout of the import, used to run the definitions.\<close>

definition validLine :: string where
  "validLine = ''0,1,Mod1,Door,100,50,18,7,Kitchen-A,MDF,White,BC123,12,Acme,14,15,C001''"

definition badDimensionLine :: string where
  "badDimensionLine = ''0,1,Mod1,Door,abc,50,18,7,Kitchen-A,MDF,White,BC124,12,Acme,14,15,C001''"

definition shortBarcodeLine :: string where
  "shortBarcodeLine = ''0,1,Mod1,Door,100,50,18,7,Kitchen-A,MDF,White,ab,12,Acme,14,15,C001''"

definition emptyBarcodeLine :: string where
  "emptyBarcodeLine = ''0,1,Mod1,Door,100,50,18,7,Kitchen-A,MDF,White,,12,Acme,14,15,C001''"

definition tenColumnLine :: string where
  "tenColumnLine = ''C001,Acme,Kitchen-A,BC123,Mod1,Door,100,50,18,MDF''"

definition badWidthLine :: string where
  "badWidthLine = ''0,1,Mod1,Door,100,-5,18,7,Kitchen-A,MDF,White,BC125,12,Acme,14,15,C001''"

text \<open>
  A state of the import screen with a file selected: a header line and two rows, for two
  pieces of one client.
\<close>

definition sampleFile :: File where
  "sampleFile =
     \<lparr>file_size = 160,
      file_text = Some (''header'' @ [CHR 0x0A] @ validLine @ [CHR 0x0A]
        @ ''0,1,Mod2,Shelf,80,40,18,7,Kitchen-A,MDF,White,BC200,12,Acme,14,15,C001'')\<rparr>"

definition readyState :: ImportState where
  "readyState =
     \<lparr>db_pieces = Map.empty, isProcessingImport = False, loading = False,
      importStatus = \<lparr>status_type = None, status_message = []\<rparr>, importErrors = [],
      previewData = None, pendingData = None, pecasFile = Some sampleFile\<rparr>"

text \<open>A piece that has been produced, and a scan state whose store holds it.\<close>

definition producedPiece :: Piece where
  "producedPiece =
     \<lparr>piece_id = ''ws_ABC123'', workspaceId = ''ws'', nome = ''Door'', modulo = ''M1'',
      projeto = ''Kitchen'', cliente = ''Acme'', medidas = ''1x2x3'', material = Some [],
      cor = Some [], status = PRODUZIDA, producedAt = Some ''t0'', producedBy = Some ''ana'',
      scanHistory = None\<rparr>"

definition producedState :: ScanState where
  "producedState =
     \<lparr>db_pieces = [''ws_ABC123'' \<mapsto> producedPiece], isScanning = False, code = ''abc123'',
      lastMsg = None\<rparr>"

text \<open>A validated row whose barcode has lower-case letters.\<close>

definition lowercaseRow :: CsvRow where
  "lowercaseRow =
     \<lparr>row_clientCode = ''C001'', row_clientName = ''Acme'', row_projectName = ''Kitchen-A'',
      row_barcode = ''bc-12a'', row_pieceModule = ''Mod1'', row_pieceName = ''Door'',
      row_comprimento = ''100'', row_largura = ''50'', row_espessura = ''18'',
      row_material = ''MDF'', row_cor = ''White''\<rparr>"

text \<open>
  Three validated rows of the client code \<open>C1\<close>: one names the client \<open>Acme\<close>, two name it
  \<open>Acme Ltda\<close>.
\<close>

definition rowAcme :: CsvRow where
  "rowAcme =
     \<lparr>row_clientCode = ''C1'', row_clientName = ''Acme'', row_projectName = ''P'',
      row_barcode = ''BC1'', row_pieceModule = ''M1'', row_pieceName = ''Door'',
      row_comprimento = ''1'', row_largura = ''2'', row_espessura = ''3'',
      row_material = ''MDF'', row_cor = ''White''\<rparr>"

definition rowLtda1 :: CsvRow where
  "rowLtda1 =
     \<lparr>row_clientCode = ''C1'', row_clientName = ''Acme Ltda'', row_projectName = ''P'',
      row_barcode = ''BC2'', row_pieceModule = ''M1'', row_pieceName = ''Door'',
      row_comprimento = ''1'', row_largura = ''2'', row_espessura = ''3'',
      row_material = ''MDF'', row_cor = ''White''\<rparr>"

definition rowLtda2 :: CsvRow where
  "rowLtda2 =
     \<lparr>row_clientCode = ''C1'', row_clientName = ''Acme Ltda'', row_projectName = ''P'',
      row_barcode = ''BC3'', row_pieceModule = ''M2'', row_pieceName = ''Shelf'',
      row_comprimento = ''1'', row_largura = ''2'', row_espessura = ''3'',
      row_material = ''MDF'', row_cor = ''White''\<rparr>"

text \<open>A state of the import screen after the analysis of the two rows of \<open>Acme Ltda\<close>.\<close>

definition stagedState :: ImportState where
  "stagedState =
     \<lparr>db_pieces = Map.empty, isProcessingImport = False, loading = False,
      importStatus = \<lparr>status_type = Some MsgSuccess, status_message = []\<rparr>,
      importErrors = [],
      previewData = Some (aggregate ''ws'' [rowLtda1, rowLtda2]),
      pendingData = Some
        \<lparr>pd_tempPecas = tempPecas (acceptRows ''ws'' [rowLtda1, rowLtda2]),
         pd_clientProjects = map snd (clientMap (acceptRows ''ws'' [rowLtda1, rowLtda2]))\<rparr>,
      pecasFile = Some sampleFile\<rparr>"

text \<open>
  A cell of a PDF page whose item code is \<open>abc123\<close>, the same cell with the code \<open>ABC123\<close>,
  and a state of the PDF import whose store holds the produced piece \<open>ws_ABC123\<close> and whose
  review grid holds the item of the first cell.
\<close>

definition sampleCell :: CellMatches where
  "sampleCell =
     \<lparr>clienteMatch = Some ''Acme'', projetoMatch = Some ''Kitchen'', moduloMatch = Some ''M1'',
      pecaMatch = Some ''Door'', obsMatch = None, codMatch = Some ''abc123'',
      medidasMatch = Some ''10 x 20 mm''\<rparr>"

definition sampleCellUpper :: CellMatches where
  "sampleCellUpper = sampleCell\<lparr>codMatch := Some ''ABC123''\<rparr>"

definition sampleItem :: PromobItem where
  "sampleItem =
     \<lparr>item_id = ''uuid-1'', item_cliente = ''Acme'', item_projeto = ''Kitchen'',
      item_modulo = ''M1'', item_peca = ''Door'', item_obs = [], item_codItem = ''abc123'',
      item_medidas = ''10 x 20 mm'', item_isValid = True, item_errors = []\<rparr>"

definition samplePdfState :: PdfState where
  "samplePdfState =
     \<lparr>db_pieces = [''ws_ABC123'' \<mapsto> producedPiece], isProcessingPdf = False,
      promobItems = [sampleItem]\<rparr>"

section \<open>Properties of the scan workflow\<close>

lemma set_trim_subset: "set (trim s) \<subseteq> set s"
proof -
  have "set (trim s) = set (dropWhile isWhiteSpace (rev (dropWhile isWhiteSpace s)))"
    by (simp add: trim_def)
  also have "\<dots> \<subseteq> set (rev (dropWhile isWhiteSpace s))"
    by (rule subsetI) (rule set_dropWhileD)
  also have "\<dots> \<subseteq> set s"
    by (auto dest: set_dropWhileD)
  finally show ?thesis .
qed

lemma toUpperChar_class:
  assumes "barcodeChar d"
  shows "barcodeChar (toUpperChar d) \<and> \<not> isLower (toUpperChar d)"
proof (cases "isLower d")
  case True
  then have n: "97 \<le> (of_char d :: nat)" "(of_char d :: nat) \<le> 122"
    by (simp_all add: isLower_def Let_def)
  then have "((of_char d :: nat) - 32) mod 256 = of_char d - 32"
    by simp
  moreover from n have "65 \<le> (of_char d :: nat) - 32 \<and> (of_char d :: nat) - 32 \<le> 90"
    by arith
  ultimately have "isUpper (toUpperChar d)"
    using True by (simp add: toUpperChar_def isUpper_def Let_def)
  then show ?thesis
    by (auto simp: barcodeChar_def isUpper_def isLower_def Let_def)
next
  case False
  with assms show ?thesis by (simp add: toUpperChar_def)
qed

lemma sanitizeBarcode_chars:
  assumes "c \<in> set (sanitizeBarcode s)"
  shows "barcodeChar c \<and> \<not> isLower c"
proof -
  from assms obtain d where d: "d \<in> set (trim (take 100 (filter barcodeChar s)))" and c: "c = toUpperChar d"
    by (auto simp: sanitizeBarcode_def toUpperCase_def)
  from d have "d \<in> set (take 100 (filter barcodeChar s))"
    using set_trim_subset by blast
  then have "d \<in> set (filter barcodeChar s)"
    by (rule in_set_takeD)
  then have "barcodeChar d" by simp
  with c show ?thesis by (simp add: toUpperChar_class)
qed

lemma mk_piece_id_inject: "mk_piece_id ws a = mk_piece_id ws b \<longleftrightarrow> a = b"
  by (simp add: mk_piece_id_def)

lemma handleScan_db_other:
  assumes "k \<noteq> mk_piece_id ws (sanitizeBarcode barcode)"
  shows "db_pieces (handleScan ws login_id now1 now2 io barcode st) k = db_pieces st k"
  using assms by (simp add: handleScan_def Let_def split: option.splits)

text \<open>
  Claim C7. A scan of a barcode whose piece has status \<open>PRODUZIDA\<close> writes nothing: the store
  after the scan is the store before it, so status, \<open>producedAt\<close>, \<open>producedBy\<close> and
  \<open>scanHistory\<close> of the piece stay as they are, whatever the store calls do. When no other
  scan is in flight the scan ends with an error message; when the read of the document
  succeeds, the message is that the piece has already been scanned. A piece is therefore
  marked produced by a scan at most once.
\<close>

theorem scan_of_produced_piece_rejected:
  assumes "db_pieces st (mk_piece_id ws (sanitizeBarcode barcode)) = Some piece"
      and "status piece = PRODUZIDA"
  shows "db_pieces (handleScan ws login_id now1 now2 io barcode st) = db_pieces st \<and>
         (\<not> isScanning st \<longrightarrow>
            (\<exists>m. lastMsg (handleScan ws login_id now1 now2 io barcode st) = Some m \<and>
                 msg_type m = MsgError)) \<and>
         (\<not> isScanning st \<and> 3 \<le> length (sanitizeBarcode barcode) \<and> io \<noteq> GetDocThrows \<longrightarrow>
            lastMsg (handleScan ws login_id now1 now2 io barcode st)
              = Some \<lparr>msg_type = MsgError,
                       msg_text = ''Esta pe'' @ [CHR 0xE7] @ ''a j'' @ [CHR 0xE1] @ '' foi bipada!'',
                       msg_data = Some piece\<rparr>)"
  using assms by (auto simp: handleScan_def Let_def)

theorem scan_of_produced_piece_rejected_witness:
  "db_pieces producedState (mk_piece_id ''ws'' (sanitizeBarcode ''abc123'')) = Some producedPiece \<and>
   status producedPiece = PRODUZIDA \<and> \<not> isScanning producedState \<and>
   db_pieces (handleScan ''ws'' ''bia'' ''t1'' ''t2'' StoreOk ''abc123'' producedState)
     = db_pieces producedState \<and>
   (\<exists>m. lastMsg (handleScan ''ws'' ''bia'' ''t1'' ''t2'' StoreOk ''abc123'' producedState) = Some m \<and>
        msg_type m = MsgError)"
proof -
  have s: "sanitizeBarcode ''abc123'' = ''ABC123''"
    by code_simp
  have h1: "db_pieces producedState (mk_piece_id ''ws'' (sanitizeBarcode ''abc123'')) = Some producedPiece"
    by (simp add: s producedState_def mk_piece_id_def)
  have h2: "status producedPiece = PRODUZIDA"
    by (simp add: producedPiece_def)
  have h3: "\<not> isScanning producedState"
    by (simp add: producedState_def)
  from scan_of_produced_piece_rejected [OF h1 h2, of "''bia''" "''t1''" "''t2''" StoreOk] h1 h2 h3
  show ?thesis by simp
qed

text \<open>
  Claim C10. The scan looks up the document \<open>ws_\<close> followed by the sanitized input, and the
  CSV import stores a piece under \<open>ws_\<close> followed by the trimmed barcode as it is written.
  When that barcode has a lower-case letter or a character that \<open>sanitizeBarcode\<close> removes,
  no scan input resolves to the document of the piece, and no scan changes it.
\<close>

theorem csv_piece_unreachable_by_scan:
  assumes "\<exists>c \<in> set (row_barcode validData). isLower c \<or> \<not> barcodeChar c"
  shows "mk_piece_id ws (sanitizeBarcode input) \<noteq> piece_id (mkPiece ws validData) \<and>
         db_pieces (handleScan ws login_id now1 now2 io input st) (piece_id (mkPiece ws validData))
           = db_pieces st (piece_id (mkPiece ws validData))"
proof -
  have "sanitizeBarcode input \<noteq> row_barcode validData"
    using assms sanitizeBarcode_chars by metis
  then have ne: "mk_piece_id ws (sanitizeBarcode input) \<noteq> piece_id (mkPiece ws validData)"
    by (simp add: mkPiece_def mk_piece_id_inject)
  then have "piece_id (mkPiece ws validData) \<noteq> mk_piece_id ws (sanitizeBarcode input)"
    by simp
  then show ?thesis using ne by (simp add: handleScan_db_other)
qed


theorem csv_piece_unreachable_by_scan_witness:
  "(\<exists>c \<in> set (row_barcode lowercaseRow). isLower c \<or> \<not> barcodeChar c) \<and>
   mk_piece_id ''ws'' (sanitizeBarcode ''bc-12a'') \<noteq> piece_id (mkPiece ''ws'' lowercaseRow) \<and>
   db_pieces (handleScan ''ws'' ''bia'' ''t1'' ''t2'' StoreOk ''bc-12a'' producedState)
       (piece_id (mkPiece ''ws'' lowercaseRow))
     = db_pieces producedState (piece_id (mkPiece ''ws'' lowercaseRow))"
proof -
  have "isLower (CHR ''b'')" by code_simp
  then have h: "\<exists>c \<in> set (row_barcode lowercaseRow). isLower c \<or> \<not> barcodeChar c"
    by (auto simp: lowercaseRow_def)
  from csv_piece_unreachable_by_scan [OF h, of "''ws''" "''bc-12a''" "''bia''" "''t1''" "''t2''" StoreOk producedState] h
  show ?thesis by simp
qed

section \<open>Properties of the row validation\<close>

lemma pathIs_Nil [simp]: "pathIs p []"
  by (simp add: pathIs_def)

lemma pathIs_append [simp]: "pathIs p (xs @ ys) \<longleftrightarrow> pathIs p xs \<and> pathIs p ys"
  by (auto simp: pathIs_def)

text \<open>
  The issues of a barcode: an empty input fails the check of \<open>.min(1)\<close>, and the refinement of
  the length does not run on it; any other input is trimmed and fails the refinement when
  fewer than 3 characters are left.
\<close>

lemma BarcodeSchema_issues:
  "fst (BarcodeSchema p v) =
     (if v = [] then
        [\<lparr>issue_code = too_small, issue_path = p,
          issue_message = ''C'' @ [CHR 0xF3] @ ''digo de barras '' @ [CHR 0xE9] @ '' obrigat'' @ [CHR 0xF3] @ ''rio''\<rparr>]
      else if length (trim v) < 3 then
        [\<lparr>issue_code = custom, issue_path = p,
          issue_message = ''C'' @ [CHR 0xF3] @ ''digo de barras deve ter pelo menos 3 caracteres''\<rparr>]
      else [])"
  by (auto simp: BarcodeSchema_def z_refine_def z_transform_def z_min_def z_string_def Let_def)

lemma DimensionValueSchema_issues:
  "fst (DimensionValueSchema p v) =
     (if invalidDimension v then
        [\<lparr>issue_code = custom, issue_path = p,
          issue_message = ''Deve ser um n'' @ [CHR 0xFA] @ ''mero positivo''\<rparr>]
      else [])"
  by (auto simp: DimensionValueSchema_def z_or_def z_refine_def z_transform_def z_length_def
      z_string_def invalidDimension_def Let_def trim_def)

lemma rowIssues_eq:
  "rowIssues r =
     fst (z_min 1 (''C'' @ [CHR 0xF3] @ ''digo do cliente ausente'') z_string [''clientCode''] (row_clientCode r))
   @ fst (z_transform trim (z_min 1 ''Nome do cliente ausente'' z_string) [''clientName''] (row_clientName r))
   @ fst (z_min 1 ''Nome do projeto ausente'' z_string [''projectName''] (row_projectName r))
   @ fst (BarcodeSchema [''barcode''] (row_barcode r))
   @ fst (DimensionValueSchema [''comprimento''] (row_comprimento r))
   @ fst (DimensionValueSchema [''largura''] (row_largura r))
   @ fst (DimensionValueSchema [''espessura''] (row_espessura r))"
  by (simp add: rowIssues_def CsvRowSchema_def Let_def z_optional_def z_string_def)

lemma pathIs_min: "pathIs p (fst (z_min n msg z_string p v))"
  by (simp add: pathIs_def z_min_def z_string_def)

lemma pathIs_transform_min: "pathIs p (fst (z_transform f (z_min n msg z_string) p v))"
  by (simp add: pathIs_def z_transform_def z_min_def z_string_def)

lemma pathIs_Barcode: "pathIs p (fst (BarcodeSchema p v))"
  by (simp add: pathIs_def BarcodeSchema_issues)

lemma pathIs_Dimension: "pathIs p (fst (DimensionValueSchema p v))"
  by (simp add: pathIs_def DimensionValueSchema_issues)

lemma analyzeRow_errors:
  assumes "trim rawLine \<noteq> []" and "\<not> length (parseCols (trim rawLine)) < 17"
  shows "errorsList (analyzeRow ws i rawLine acc) =
           errorsList acc @ map (\<lambda>issue. mapZodErrorToImportError issue (i + 1) CSV)
                              (rowIssues (rawDataOf (parseCols (trim rawLine))))"
  using assms
  by (simp add: analyzeRow_def Let_def rowIssues_def acceptRow_def split: sum.splits)

lemma rowErrors_eq:
  assumes "trim rawLine \<noteq> []" and "\<not> length (parseCols (trim rawLine)) < 17"
  shows "rowErrors ws i rawLine =
           map (\<lambda>issue. mapZodErrorToImportError issue (i + 1) CSV)
             (rowIssues (rawDataOf (parseCols (trim rawLine))))"
  using analyzeRow_errors [OF assms, of ws i emptyAcc]
  by (simp add: rowErrors_def emptyAcc_def)

lemma analyzeRow_rejects:
  assumes "trim rawLine \<noteq> []" and "\<not> length (parseCols (trim rawLine)) < 17"
      and "rowIssues (rawDataOf (parseCols (trim rawLine))) \<noteq> []"
  shows "tempPecas (analyzeRow ws i rawLine acc) = tempPecas acc \<and>
         clientMap (analyzeRow ws i rawLine acc) = clientMap acc \<and>
         linhasProcessadas (analyzeRow ws i rawLine acc) = linhasProcessadas acc"
  using assms
  by (simp add: analyzeRow_def Let_def rowIssues_def split: sum.splits)


lemma err_type_map:
  "err_type (mapZodErrorToImportError issue n c) =
     (if ''clientName'' \<in> set (issue_path issue) \<or> ''cliente'' \<in> set (issue_path issue)
      then MISSING_CLIENT_INFO
      else if ''comprimento'' \<in> set (issue_path issue) \<or> ''largura'' \<in> set (issue_path issue)
      then INVALID_MEASUREMENTS
      else if ''barcode'' \<in> set (issue_path issue) then INVALID_BARCODE_FORMAT
      else VALIDATION_ERROR)"
  by (simp add: mapZodErrorToImportError_def Let_def)

lemma err_severity_map:
  "err_severity (mapZodErrorToImportError issue n c) =
     (if ''comprimento'' \<in> set (issue_path issue) \<or> ''largura'' \<in> set (issue_path issue)
      then WARNING else ERROR)"
  by (simp add: mapZodErrorToImportError_def Let_def)

lemma err_field_map:
  "err_field (mapZodErrorToImportError issue n c) =
     Some (case issue_path issue of [] \<Rightarrow> ''undefined'' | p # _ \<Rightarrow> p)"
  by (simp add: mapZodErrorToImportError_def Let_def)

lemma err_lineNumber_map:
  "err_lineNumber (mapZodErrorToImportError issue n CSV) = Some n"
  by (simp add: mapZodErrorToImportError_def Let_def)

lemma errorsOfType_append:
  "errorsOfType t (xs @ ys) = errorsOfType t xs @ errorsOfType t ys"
  by (simp add: errorsOfType_def)

lemma errorsOfField_append:
  "errorsOfField f (xs @ ys) = errorsOfField f xs @ errorsOfField f ys"
  by (simp add: errorsOfField_def)

lemma errorsOfType_other:
  assumes "pathIs [k] issues" and "k \<noteq> ''barcode''"
  shows "errorsOfType INVALID_BARCODE_FORMAT
           (map (\<lambda>issue. mapZodErrorToImportError issue n c) issues) = []"
proof -
  have "err_type (mapZodErrorToImportError x n c) \<noteq> INVALID_BARCODE_FORMAT"
    if "x \<in> set issues" for x
  proof -
    from that assms(1) have "issue_path x = [k]" by (simp add: pathIs_def)
    with assms(2) show ?thesis by (simp add: err_type_map)
  qed
  then show ?thesis by (simp add: errorsOfType_def filter_empty_conv)
qed

lemma errorsOfType_barcode:
  assumes "pathIs [''barcode''] issues"
  shows "errorsOfType INVALID_BARCODE_FORMAT
           (map (\<lambda>issue. mapZodErrorToImportError issue n c) issues)
         = map (\<lambda>issue. mapZodErrorToImportError issue n c) issues"
proof -
  have "err_type (mapZodErrorToImportError x n c) = INVALID_BARCODE_FORMAT"
    if "x \<in> set issues" for x
  proof -
    from that assms have "issue_path x = [''barcode'']" by (simp add: pathIs_def)
    then show ?thesis by (simp add: err_type_map)
  qed
  then show ?thesis by (simp add: errorsOfType_def filter_id_conv)
qed

lemma errorsOfField_path:
  assumes "pathIs [k] issues"
  shows "errorsOfField f (map (\<lambda>issue. mapZodErrorToImportError issue n c) issues)
         = (if k = f then map (\<lambda>issue. mapZodErrorToImportError issue n c) issues else [])"
proof -
  have "err_field (mapZodErrorToImportError x n c) = Some k"
    if "x \<in> set issues" for x
  proof -
    from that assms have "issue_path x = [k]" by (simp add: pathIs_def)
    then show ?thesis by (simp add: err_field_map)
  qed
  then show ?thesis by (simp add: errorsOfField_def filter_id_conv filter_empty_conv)
qed

lemma barcode_errors_of_row:
  "errorsOfType INVALID_BARCODE_FORMAT
     (map (\<lambda>issue. mapZodErrorToImportError issue n CSV) (rowIssues r))
   = map (\<lambda>issue. mapZodErrorToImportError issue n CSV) (fst (BarcodeSchema [''barcode''] (row_barcode r)))"
proof -
  let ?f = "errorsOfType INVALID_BARCODE_FORMAT"
  let ?m = "map (\<lambda>issue. mapZodErrorToImportError issue n CSV)"
  have a: "\<And>m msg v. ?f (?m (fst (z_min m msg z_string [''clientCode''] v))) = []"
    by (rule errorsOfType_other [OF pathIs_min]) simp
  have b: "\<And>g m msg v. ?f (?m (fst (z_transform g (z_min m msg z_string) [''clientName''] v))) = []"
    by (rule errorsOfType_other [OF pathIs_transform_min]) simp
  have c: "\<And>m msg v. ?f (?m (fst (z_min m msg z_string [''projectName''] v))) = []"
    by (rule errorsOfType_other [OF pathIs_min]) simp
  have d: "\<And>v. ?f (?m (fst (DimensionValueSchema [''comprimento''] v))) = []"
    by (rule errorsOfType_other [OF pathIs_Dimension]) simp
  have e: "\<And>v. ?f (?m (fst (DimensionValueSchema [''largura''] v))) = []"
    by (rule errorsOfType_other [OF pathIs_Dimension]) simp
  have f: "\<And>v. ?f (?m (fst (DimensionValueSchema [''espessura''] v))) = []"
    by (rule errorsOfType_other [OF pathIs_Dimension]) simp
  have g: "\<And>v. ?f (?m (fst (BarcodeSchema [''barcode''] v))) = ?m (fst (BarcodeSchema [''barcode''] v))"
    by (rule errorsOfType_barcode [OF pathIs_Barcode])
  show ?thesis
    unfolding rowIssues_eq map_append errorsOfType_append a b c d e f g by simp
qed

lemma field_errors_of_row:
  "errorsOfField fld
     (map (\<lambda>issue. mapZodErrorToImportError issue n CSV) (rowIssues r))
   = (if ''clientCode'' = fld then map (\<lambda>issue. mapZodErrorToImportError issue n CSV)
         (fst (z_min 1 (''C'' @ [CHR 0xF3] @ ''digo do cliente ausente'') z_string [''clientCode''] (row_clientCode r))) else [])
   @ (if ''clientName'' = fld then map (\<lambda>issue. mapZodErrorToImportError issue n CSV)
         (fst (z_transform trim (z_min 1 ''Nome do cliente ausente'' z_string) [''clientName''] (row_clientName r))) else [])
   @ (if ''projectName'' = fld then map (\<lambda>issue. mapZodErrorToImportError issue n CSV)
         (fst (z_min 1 ''Nome do projeto ausente'' z_string [''projectName''] (row_projectName r))) else [])
   @ (if ''barcode'' = fld then map (\<lambda>issue. mapZodErrorToImportError issue n CSV)
         (fst (BarcodeSchema [''barcode''] (row_barcode r))) else [])
   @ (if ''comprimento'' = fld then map (\<lambda>issue. mapZodErrorToImportError issue n CSV)
         (fst (DimensionValueSchema [''comprimento''] (row_comprimento r))) else [])
   @ (if ''largura'' = fld then map (\<lambda>issue. mapZodErrorToImportError issue n CSV)
         (fst (DimensionValueSchema [''largura''] (row_largura r))) else [])
   @ (if ''espessura'' = fld then map (\<lambda>issue. mapZodErrorToImportError issue n CSV)
         (fst (DimensionValueSchema [''espessura''] (row_espessura r))) else [])"
  unfolding rowIssues_eq map_append errorsOfField_append
    errorsOfField_path [OF pathIs_min] errorsOfField_path [OF pathIs_transform_min]
    errorsOfField_path [OF pathIs_Barcode] errorsOfField_path [OF pathIs_Dimension]
  by (rule refl)


text \<open>The loop runs the body on every line after the first, with the index of the line.\<close>

lemma analyzeLoop_snoc:
  "analyzeLoop ws i (ls @ [l]) acc = analyzeRow ws (i + length ls) l (analyzeLoop ws i ls acc)"
  by (induction ls arbitrary: i acc) simp_all

lemma analyzeRow_errors_append:
  "errorsList (analyzeRow ws i rawLine acc) = errorsList acc @ rowErrors ws i rawLine"
  by (simp add: rowErrors_def analyzeRow_def emptyAcc_def acceptRow_def Let_def split: sum.splits)

text \<open>
  Claim C5. A line of the file that is not blank and has fewer than 17 columns yields no
  record: the pieces, the client map and the count of processed lines stay as they are, and
  exactly one error is added, of kind \<open>MISSING_REQUIRED_COLUMN\<close> and severity \<open>WARNING\<close>, with
  the number of the line. The row is skipped before the validation of its fields.
\<close>

theorem short_line_skipped:
  assumes "trim rawLine \<noteq> []"
      and "length (parseCols (trim rawLine)) < 17"
  shows "tempPecas (analyzeRow ws i rawLine acc) = tempPecas acc \<and>
         clientMap (analyzeRow ws i rawLine acc) = clientMap acc \<and>
         linhasProcessadas (analyzeRow ws i rawLine acc) = linhasProcessadas acc \<and>
         (\<exists>e. errorsList (analyzeRow ws i rawLine acc) = errorsList acc @ [e] \<and>
              err_type e = MISSING_REQUIRED_COLUMN \<and> err_severity e = WARNING \<and>
              err_lineNumber e = Some (i + 1))"
  using assms by (simp add: analyzeRow_def Let_def)

theorem short_line_skipped_witness:
  "trim tenColumnLine \<noteq> [] \<and> length (parseCols (trim tenColumnLine)) < 17 \<and>
   tempPecas (analyzeRow ''ws'' 1 tenColumnLine emptyAcc) = [] \<and>
   (\<exists>e. errorsList (analyzeRow ''ws'' 1 tenColumnLine emptyAcc) = [e] \<and>
        err_type e = MISSING_REQUIRED_COLUMN \<and> err_severity e = WARNING \<and>
        err_lineNumber e = Some 2)"
proof -
  have h1: "trim tenColumnLine \<noteq> []" by code_simp
  have h2: "length (parseCols (trim tenColumnLine)) < 17" by code_simp
  from short_line_skipped [OF h1 h2, of "''ws''" 1 emptyAcc] h1 h2
  show ?thesis by (simp add: emptyAcc_def numeral_2_eq_2)
qed

text \<open>
  Claim C4. A row with at least 17 columns whose barcode field, trimmed, is shorter than 3
  characters reports exactly one error of kind \<open>INVALID_BARCODE_FORMAT\<close>. The error has
  severity \<open>ERROR\<close>, names the field \<open>barcode\<close> and carries the number of the line, and the row
  yields no piece. The empty field is one of these fields.
\<close>

theorem short_barcode_errors:
  assumes "trim rawLine \<noteq> []"
      and "17 \<le> length (parseCols (trim rawLine))"
      and "length (trim (parseCols (trim rawLine) ! 11)) < 3"
  shows "(\<exists>e. errorsOfType INVALID_BARCODE_FORMAT (rowErrors ws i rawLine) = [e] \<and>
              err_severity e = ERROR \<and> err_field e = Some ''barcode'' \<and>
              err_lineNumber e = Some (i + 1)) \<and>
         tempPecas (analyzeRow ws i rawLine acc) = tempPecas acc"
proof -
  let ?cols = "parseCols (trim rawLine)"
  from assms(2) have n17: "\<not> length ?cols < 17" by simp
  have bc: "row_barcode (rawDataOf ?cols) = ?cols ! 11"
    by (simp add: rawDataOf_def)
  have errs: "errorsOfType INVALID_BARCODE_FORMAT (rowErrors ws i rawLine)
        = map (\<lambda>issue. mapZodErrorToImportError issue (i + 1) CSV)
            (fst (BarcodeSchema [''barcode''] (?cols ! 11)))"
    by (simp add: rowErrors_eq [OF assms(1) n17] barcode_errors_of_row bc)
  have "\<exists>x. fst (BarcodeSchema [''barcode''] (?cols ! 11)) = [x] \<and>
            issue_path x = [''barcode'']"
    using assms(3) by (simp add: BarcodeSchema_issues)
  then obtain x where one: "fst (BarcodeSchema [''barcode''] (?cols ! 11)) = [x]"
    and px: "issue_path x = [''barcode'']"
    by blast
  have ne: "rowIssues (rawDataOf ?cols) \<noteq> []"
    using one by (simp add: rowIssues_eq bc)
  show ?thesis
    using px analyzeRow_rejects [OF assms(1) n17 ne, of ws i acc]
    by (simp add: errs one err_severity_map err_field_map err_lineNumber_map)
qed

theorem short_barcode_errors_witness:
  "trim emptyBarcodeLine \<noteq> [] \<and> 17 \<le> length (parseCols (trim emptyBarcodeLine)) \<and>
   length (trim (parseCols (trim emptyBarcodeLine) ! 11)) < 3 \<and>
   (\<exists>e. errorsOfType INVALID_BARCODE_FORMAT (rowErrors ''ws'' 1 emptyBarcodeLine) = [e] \<and>
        err_severity e = ERROR \<and> err_field e = Some ''barcode'') \<and>
   tempPecas (analyzeRow ''ws'' 1 emptyBarcodeLine emptyAcc) = [] \<and>
   trim shortBarcodeLine \<noteq> [] \<and> 17 \<le> length (parseCols (trim shortBarcodeLine)) \<and>
   length (trim (parseCols (trim shortBarcodeLine) ! 11)) < 3 \<and>
   (\<exists>e. errorsOfType INVALID_BARCODE_FORMAT (rowErrors ''ws'' 1 shortBarcodeLine) = [e] \<and>
        err_severity e = ERROR \<and> err_field e = Some ''barcode'') \<and>
   tempPecas (analyzeRow ''ws'' 1 shortBarcodeLine emptyAcc) = []"
proof -
  have e1: "trim emptyBarcodeLine \<noteq> []" by code_simp
  have e2: "17 \<le> length (parseCols (trim emptyBarcodeLine))" by code_simp
  have e3: "length (trim (parseCols (trim emptyBarcodeLine) ! 11)) < 3" by code_simp
  have h1: "trim shortBarcodeLine \<noteq> []" by code_simp
  have h2: "17 \<le> length (parseCols (trim shortBarcodeLine))" by code_simp
  have h3: "length (trim (parseCols (trim shortBarcodeLine) ! 11)) < 3" by code_simp
  from short_barcode_errors [OF e1 e2 e3, of "''ws''" 1 emptyAcc]
    short_barcode_errors [OF h1 h2 h3, of "''ws''" 1 emptyAcc] e1 e2 e3 h1 h2 h3
  show ?thesis by (auto simp: emptyAcc_def)
qed

text \<open>
  Claim C3, as amended. A row with at least 17 columns in which a dimension field is neither
  empty nor a number that is at least zero (after trimming and the replacement of the comma)
  is skipped: it yields no piece. For \<open>comprimento\<close> and for \<open>largura\<close> the row reports exactly
  one error for the field, of kind \<open>INVALID_MEASUREMENTS\<close> and severity \<open>WARNING\<close>.
\<close>

theorem invalid_dimension_row_skipped:
  assumes "trim rawLine \<noteq> []"
      and "17 \<le> length (parseCols (trim rawLine))"
      and "invalidDimension (parseCols (trim rawLine) ! 4) \<or>
           invalidDimension (parseCols (trim rawLine) ! 5) \<or>
           invalidDimension (parseCols (trim rawLine) ! 6)"
  shows "tempPecas (analyzeRow ws i rawLine acc) = tempPecas acc \<and>
         (invalidDimension (parseCols (trim rawLine) ! 4) \<longrightarrow>
            (\<exists>e. errorsOfField ''comprimento'' (rowErrors ws i rawLine) = [e] \<and>
                 err_type e = INVALID_MEASUREMENTS \<and> err_severity e = WARNING \<and>
                 err_lineNumber e = Some (i + 1))) \<and>
         (invalidDimension (parseCols (trim rawLine) ! 5) \<longrightarrow>
            (\<exists>e. errorsOfField ''largura'' (rowErrors ws i rawLine) = [e] \<and>
                 err_type e = INVALID_MEASUREMENTS \<and> err_severity e = WARNING \<and>
                 err_lineNumber e = Some (i + 1)))"
proof -
  let ?cols = "parseCols (trim rawLine)"
  let ?r = "rawDataOf ?cols"
  from assms(2) have n17: "\<not> length ?cols < 17" by simp
  have f: "row_comprimento ?r = ?cols ! 4" "row_largura ?r = ?cols ! 5"
          "row_espessura ?r = ?cols ! 6"
    by (simp_all add: rawDataOf_def)
  have ne: "rowIssues ?r \<noteq> []"
    using assms(3) by (auto simp: rowIssues_eq f DimensionValueSchema_issues)
  have skip: "tempPecas (analyzeRow ws i rawLine acc) = tempPecas acc"
    using analyzeRow_rejects [OF assms(1) n17 ne] by simp
  have c: "\<exists>e. errorsOfField ''comprimento'' (rowErrors ws i rawLine) = [e] \<and>
                 err_type e = INVALID_MEASUREMENTS \<and> err_severity e = WARNING \<and>
                 err_lineNumber e = Some (i + 1)"
    if "invalidDimension (?cols ! 4)"
    using that
    by (simp add: rowErrors_eq [OF assms(1) n17] field_errors_of_row f
        DimensionValueSchema_issues err_type_map err_severity_map err_lineNumber_map)
  have l: "\<exists>e. errorsOfField ''largura'' (rowErrors ws i rawLine) = [e] \<and>
                 err_type e = INVALID_MEASUREMENTS \<and> err_severity e = WARNING \<and>
                 err_lineNumber e = Some (i + 1)"
    if "invalidDimension (?cols ! 5)"
    using that
    by (simp add: rowErrors_eq [OF assms(1) n17] field_errors_of_row f
        DimensionValueSchema_issues err_type_map err_severity_map err_lineNumber_map)
  from skip c l show ?thesis by blast
qed

theorem invalid_dimension_row_skipped_witness:
  "trim badWidthLine \<noteq> [] \<and> 17 \<le> length (parseCols (trim badWidthLine)) \<and>
   invalidDimension (parseCols (trim badWidthLine) ! 5) \<and>
   tempPecas (analyzeRow ''ws'' 1 badWidthLine emptyAcc) = [] \<and>
   (\<exists>e. errorsOfField ''largura'' (rowErrors ''ws'' 1 badWidthLine) = [e] \<and>
        err_type e = INVALID_MEASUREMENTS \<and> err_severity e = WARNING)"
proof -
  have h1: "trim badWidthLine \<noteq> []" by code_simp
  have h2: "17 \<le> length (parseCols (trim badWidthLine))" by code_simp
  have h3: "invalidDimension (parseCols (trim badWidthLine) ! 5)" by code_simp
  from h3 have h4: "invalidDimension (parseCols (trim badWidthLine) ! 4) \<or>
           invalidDimension (parseCols (trim badWidthLine) ! 5) \<or>
           invalidDimension (parseCols (trim badWidthLine) ! 6)" by simp
  from invalid_dimension_row_skipped [OF h1 h2 h4, of "''ws''" 1 emptyAcc] h1 h2 h3
  show ?thesis by (auto simp: emptyAcc_def)
qed

text \<open>
  The claim C3 as written, that such a row is still imported with the dimension defaulted,
  fails: the row with \<open>comprimento\<close> \<open>abc\<close> yields no piece.
\<close>

theorem invalid_dimension_imported_counterexample:
  "trim badDimensionLine \<noteq> [] \<and> 17 \<le> length (parseCols (trim badDimensionLine)) \<and>
   invalidDimension (parseCols (trim badDimensionLine) ! 4) \<and>
   tempPecas (analyzeRow ''ws'' 1 badDimensionLine emptyAcc) = []"
  by code_simp

section \<open>Properties of the staging and commit gate\<close>

text \<open>
  Claim C8. While the in-flight flag is set, an invocation of analyze or of confirm returns
  the state as it is: nothing is reset, no error collection and no preview is produced, no
  write is made, and no error is raised.
\<close>

theorem in_flight_guard:
  assumes "isProcessingImport st"
  shows "handleAnalyze ws st = st \<and> handleAnalyze_begin st = st \<and>
         handleConfirm commitOk st = st \<and> handleConfirm_begin st = st"
  using assms
  by (simp add: handleAnalyze_def handleAnalyze_begin_def analyzeStarts_def handleConfirm_def
      handleConfirm_begin_def Let_def split: option.splits)

theorem in_flight_guard_witness:
  "isProcessingImport (handleAnalyze_begin readyState) \<and>
   handleAnalyze ''ws'' (handleAnalyze_begin readyState) = handleAnalyze_begin readyState \<and>
   handleConfirm True (handleAnalyze_begin readyState) = handleAnalyze_begin readyState"
proof -
  have h: "isProcessingImport (handleAnalyze_begin readyState)"
    by (simp add: handleAnalyze_begin_def readyState_def sampleFile_def MAX_FILE_SIZE_def Let_def)
  from in_flight_guard [OF h, of "''ws''" True] h show ?thesis by simp
qed

text \<open>
  Claim C2. When the commit of the batch fails, the store is as before (no record is
  imported), an error status is shown, \<open>pendingData\<close> and \<open>previewData\<close> are as before and
  the in-flight flag is reset, so that a second confirm, without a new analysis, does what a
  first successful one would have done. The staged data is cleared when the commit succeeds.
\<close>

theorem failed_commit_keeps_staged_data:
  assumes "pendingData st \<noteq> None" and "\<not> isProcessingImport st"
  shows "pendingData (handleConfirm False st) = pendingData st \<and>
         previewData (handleConfirm False st) = previewData st \<and>
         db_pieces (handleConfirm False st) = db_pieces st \<and>
         status_type (importStatus (handleConfirm False st)) = Some MsgError \<and>
         \<not> isProcessingImport (handleConfirm False st) \<and>
         handleConfirm True (handleConfirm False st) = handleConfirm True st \<and>
         pendingData (handleConfirm True st) = None \<and>
         previewData (handleConfirm True st) = None"
  using assms
  by (auto simp: handleConfirm_def handleConfirm_begin_def handleConfirm_run_def
      finallyImport_def)

theorem failed_commit_keeps_staged_data_witness:
  "pendingData stagedState \<noteq> None \<and> \<not> isProcessingImport stagedState \<and>
   pendingData (handleConfirm False stagedState) = pendingData stagedState \<and>
   previewData (handleConfirm False stagedState) = previewData stagedState \<and>
   db_pieces (handleConfirm False stagedState) = db_pieces stagedState \<and>
   handleConfirm True (handleConfirm False stagedState) = handleConfirm True stagedState \<and>
   pendingData (handleConfirm True stagedState) = None"
proof -
  have h1: "pendingData stagedState \<noteq> None" by (simp add: stagedState_def)
  have h2: "\<not> isProcessingImport stagedState" by (simp add: stagedState_def)
  from failed_commit_keeps_staged_data [OF h1 h2] h1 h2 show ?thesis by simp
qed

section \<open>Properties of the aggregation\<close>

lemma acceptRows_snoc: "acceptRows ws (rows @ [v]) = acceptRow ws v (acceptRows ws rows)"
  by (simp add: acceptRows_def)

lemma tempPecas_acceptRows: "tempPecas (acceptRows ws rows) = map (mkPiece ws) rows"
proof (induction rows rule: rev_induct)
  case Nil
  then show ?case by (simp add: acceptRows_def emptyAcc_def)
next
  case (snoc v rows)
  then show ?case by (simp add: acceptRows_snoc acceptRow_def Let_def)
qed

lemma set_update_subset: "set (AList.update k v al) \<subseteq> insert (k, v) (set al)"
  by (induction al) auto

lemma codesOK_update:
  assumes "codesOK al" and "ci_clientCode v = k"
  shows "codesOK (AList.update k v al)"
  using assms set_update_subset [of k v al] by (auto simp: codesOK_def)

lemma codesOK_map_of:
  assumes "codesOK al" and "map_of al k = Some ci"
  shows "ci_clientCode ci = k"
  using assms map_of_SomeD [of al k ci] by (auto simp: codesOK_def)

lemma codesOK_acceptRow:
  assumes "codesOK (clientMap acc)"
  shows "codesOK (clientMap (acceptRow ws v acc))"
proof -
  let ?k = "row_clientCode v"
  let ?new = "\<lparr>ci_clientCode = ?k, ci_clientName = row_clientName v, ci_projects = []\<rparr>"
  let ?cm1 = "if map_of (clientMap acc) ?k = None then AList.update ?k ?new (clientMap acc)
              else clientMap acc"
  have ok1: "codesOK ?cm1"
    using assms by (simp add: codesOK_update)
  show ?thesis
  proof (cases "map_of ?cm1 ?k")
    case None
    with ok1 show ?thesis by (simp add: acceptRow_def Let_def)
  next
    case (Some ci)
    from codesOK_map_of [OF ok1 Some] have "ci_clientCode ci = ?k" .
    then have "codesOK (AList.update ?k (ci\<lparr>ci_projects := setAdd (row_projectName v) (ci_projects ci)\<rparr>) ?cm1)"
      using ok1 by (intro codesOK_update) simp_all
    with Some show ?thesis by (simp add: acceptRow_def Let_def)
  qed
qed

lemma codesOK_acceptRows: "codesOK (clientMap (acceptRows ws rows))"
proof (induction rows rule: rev_induct)
  case Nil
  then show ?case by (simp add: acceptRows_def emptyAcc_def codesOK_def)
next
  case (snoc v rows)
  then show ?case by (simp add: acceptRows_snoc codesOK_acceptRow)
qed

lemma name_acceptRow:
  "map_option ci_clientName (map_of (clientMap (acceptRow ws v acc)) c) =
     (if c = row_clientCode v
      then Some (case map_of (clientMap acc) c of
                   None \<Rightarrow> row_clientName v | Some ci \<Rightarrow> ci_clientName ci)
      else map_option ci_clientName (map_of (clientMap acc) c))"
  by (auto simp: acceptRow_def Let_def AList.update_conv' split: option.splits)

lemma find_app:
  "find P (xs @ ys) = (case find P xs of None \<Rightarrow> find P ys | Some x \<Rightarrow> Some x)"
  by (induction xs) auto

lemma name_acceptRows:
  "map_option ci_clientName (map_of (clientMap (acceptRows ws rows)) c) =
     map_option row_clientName (find (\<lambda>r. row_clientCode r = c) rows)"
proof (induction rows rule: rev_induct)
  case Nil
  then show ?case by (simp add: acceptRows_def emptyAcc_def)
next
  case (snoc v rows)
  show ?case
  proof (cases "find (\<lambda>r. row_clientCode r = c) rows")
    case None
    with snoc show ?thesis
      by (auto simp: acceptRows_snoc name_acceptRow find_app split: option.splits)
  next
    case (Some r)
    with snoc show ?thesis
      by (auto simp: acceptRows_snoc name_acceptRow find_app split: option.splits)
  qed
qed

lemma find_map_alist:
  assumes "\<forall>(k, v) \<in> set al. key (f (k, v)) = k"
  shows "find (\<lambda>g. key g = c) (map f al) = map_option (\<lambda>v. f (c, v)) (map_of al c)"
  using assms by (induction al) auto

lemma find_previewList:
  assumes "codesOK cm"
  shows "find (\<lambda>g. pg_clientCode g = c) (previewList cm pecas)
         = map_option (\<lambda>ci. clientPreview ci pecas) (map_of cm c)"
proof -
  have "\<forall>(k, v) \<in> set cm. pg_clientCode ((\<lambda>(k, ci). clientPreview ci pecas) (k, v)) = k"
    using assms by (auto simp: codesOK_def clientPreview_def Let_def)
  from find_map_alist [where key = pg_clientCode and f = "\<lambda>(k, ci). clientPreview ci pecas"
      and al = cm and c = c, OF this]
  show ?thesis
    by (simp add: previewList_def)
qed

lemma find_projects:
  "find (\<lambda>q. pp_name q = p) (pg_projects (clientPreview ci pecas))
   = map_option (\<lambda>(cnt, mods). \<lparr>pp_name = p, pp_pieceCount = cnt, pp_moduleCount = length mods\<rparr>)
       (map_of (projectStatsOf (ci_clientName ci) pecas) p)"
proof -
  let ?f = "\<lambda>(projName, pieceCount, modules).
              \<lparr>pp_name = projName, pp_pieceCount = pieceCount, pp_moduleCount = length modules\<rparr>"
  have "\<forall>(k, v) \<in> set (projectStatsOf (ci_clientName ci) pecas). pp_name (?f (k, v)) = k"
    by auto
  from find_map_alist [where key = pp_name and f = ?f
      and al = "projectStatsOf (ci_clientName ci) pecas" and c = p, OF this]
  show ?thesis
    by (simp add: clientPreview_def Let_def split_def)
qed

lemma map_of_addToStats:
  "map_of (addToStats q st) p =
     (if p = projeto q
      then Some (case map_of st p of
                   None \<Rightarrow> (1, setAdd (modulo q) [])
                 | Some (c, m) \<Rightarrow> (c + 1, setAdd (modulo q) m))
      else map_of st p)"
  by (auto simp: addToStats_def Let_def AList.update_conv' split: option.splits)

lemma stats_foldl:
  "case map_of (foldl (\<lambda>stats q. addToStats q stats) [] ps) p of
     None \<Rightarrow> filter (\<lambda>q. projeto q = p) ps = []
   | Some (cnt, mods) \<Rightarrow>
       filter (\<lambda>q. projeto q = p) ps \<noteq> [] \<and> cnt = length (filter (\<lambda>q. projeto q = p) ps) \<and>
       distinct mods \<and> set mods = modulo ` set (filter (\<lambda>q. projeto q = p) ps)"
proof (induction ps rule: rev_induct)
  case Nil
  then show ?case by simp
next
  case (snoc q ps)
  then show ?case
    by (auto simp: map_of_addToStats setAdd_def filter_empty_conv split: option.splits)
qed

lemma stats_counts:
  "map_option (\<lambda>(cnt, mods). (cnt, length mods)) (map_of (projectStatsOf n pecas) p)
   = countsOf n p pecas"
proof -
  let ?ps = "filter (\<lambda>q. cliente q = n) pecas"
  have ff: "filter (\<lambda>q. projeto q = p) ?ps = filter (\<lambda>q. cliente q = n \<and> projeto q = p) pecas"
    by simp
  show ?thesis
  proof (cases "map_of (projectStatsOf n pecas) p")
    case None
    with stats_foldl [where ps = ?ps and p = p] show ?thesis
      by (simp add: projectStatsOf_def countsOf_def ff)
  next
    case (Some a)
    obtain cnt mods where a: "a = (cnt, mods)" by (cases a)
    from Some a stats_foldl [where ps = ?ps and p = p]
    have "filter (\<lambda>q. cliente q = n \<and> projeto q = p) pecas \<noteq> []"
      and "cnt = length (filter (\<lambda>q. cliente q = n \<and> projeto q = p) pecas)"
      and "distinct mods"
      and "set mods = modulo ` set (filter (\<lambda>q. cliente q = n \<and> projeto q = p) pecas)"
      by (simp_all add: projectStatsOf_def ff)
    then show ?thesis
      using Some a distinct_card [of mods] by (simp add: countsOf_def)
  qed
qed

lemma previewCounts_aggregate:
  "previewCounts (aggregate ws rows) c p =
     (case find (\<lambda>r. row_clientCode r = c) rows of
        None \<Rightarrow> None
      | Some r \<Rightarrow> countsOf (row_clientName r) p (map (mkPiece ws) rows))"
proof -
  let ?A = "acceptRows ws rows"
  let ?pecas = "map (mkPiece ws) rows"
  have fnd: "find (\<lambda>g. pg_clientCode g = c) (aggregate ws rows)
        = map_option (\<lambda>ci. clientPreview ci ?pecas) (map_of (clientMap ?A) c)"
    by (simp add: aggregate_def find_previewList [OF codesOK_acceptRows] tempPecas_acceptRows)
  show ?thesis
  proof (cases "map_of (clientMap ?A) c")
    case None
    with name_acceptRows [of ws rows c] have "find (\<lambda>r. row_clientCode r = c) rows = None"
      by simp
    with None fnd show ?thesis by (simp add: previewCounts_def)
  next
    case (Some ci)
    with name_acceptRows [of ws rows c] obtain r
      where r: "find (\<lambda>r. row_clientCode r = c) rows = Some r"
        and n: "row_clientName r = ci_clientName ci"
      by (cases "find (\<lambda>r. row_clientCode r = c) rows") auto
    have "previewCounts (aggregate ws rows) c p
        = map_option (\<lambda>q. (pp_pieceCount q, pp_moduleCount q))
            (find (\<lambda>q. pp_name q = p) (pg_projects (clientPreview ci ?pecas)))"
      using Some fnd by (simp add: previewCounts_def split: option.splits)
    also have "\<dots> = map_option (\<lambda>(cnt, mods). (cnt, length mods))
            (map_of (projectStatsOf (ci_clientName ci) ?pecas) p)"
      by (simp add: find_projects option.map_comp comp_def split_def)
    also have "\<dots> = countsOf (ci_clientName ci) p ?pecas"
      by (rule stats_counts)
    finally show ?thesis using r n by simp
  qed
qed

lemma countsOf_mset:
  assumes "mset xs = mset ys"
  shows "countsOf n p xs = countsOf n p ys"
proof -
  let ?P = "\<lambda>q. cliente q = n \<and> projeto q = p"
  have m: "mset (filter ?P xs) = mset (filter ?P ys)"
    by (simp add: assms)
  then have "length (filter ?P xs) = length (filter ?P ys)"
    by (rule mset_eq_length)
  moreover from m have "set (filter ?P xs) = set (filter ?P ys)"
    by (rule mset_eq_setD)
  moreover from m have "filter ?P xs = [] \<longleftrightarrow> filter ?P ys = []"
    using mset_eq_length [OF m] by auto
  ultimately show ?thesis by (simp add: countsOf_def Let_def)
qed

lemma find_SomeD:
  "find P xs = Some x \<Longrightarrow> x \<in> set xs \<and> P x"
  by (induction xs) (auto split: if_splits)

lemma find_NoneD:
  "find P xs = None \<Longrightarrow> x \<in> set xs \<Longrightarrow> \<not> P x"
  by (induction xs) (auto split: if_splits)

lemma find_name_perm:
  assumes "set xs = set ys" and "oneNamePerCode xs"
  shows "map_option row_clientName (find (\<lambda>r. row_clientCode r = c) xs)
       = map_option row_clientName (find (\<lambda>r. row_clientCode r = c) ys)"
proof (cases "find (\<lambda>r. row_clientCode r = c) xs")
  case None
  note nx = this
  show ?thesis
  proof (cases "find (\<lambda>r. row_clientCode r = c) ys")
    case None
    with nx show ?thesis by simp
  next
    case (Some b)
    from find_SomeD [OF Some] have "b \<in> set ys" and "row_clientCode b = c" by blast+
    with assms(1) have "b \<in> set xs" by blast
    from find_NoneD [OF nx this] \<open>row_clientCode b = c\<close> show ?thesis by blast
  qed
next
  case (Some a)
  note sx = this
  from find_SomeD [OF Some] have a: "a \<in> set xs" "row_clientCode a = c" by blast+
  show ?thesis
  proof (cases "find (\<lambda>r. row_clientCode r = c) ys")
    case None
    from a(1) assms(1) have "a \<in> set ys" by blast
    from find_NoneD [OF None this] a(2) show ?thesis by blast
  next
    case (Some b)
    from find_SomeD [OF Some] have "b \<in> set ys" and bc: "row_clientCode b = c" by blast+
    with assms(1) have "b \<in> set xs" by blast
    from a(2) bc have "row_clientCode a = row_clientCode b" by simp
    with a(1) \<open>b \<in> set xs\<close> assms(2) have "row_clientName a = row_clientName b"
      unfolding oneNamePerCode_def by (elim ballE [where x = a] ballE [where x = b]) simp_all
    with sx Some show ?thesis by simp
  qed
qed

text \<open>
  Claim C9, as amended. When every client code of the rows comes with one client name, the
  aggregation of a list of validated rows and of any permutation of it report the same piece
  count and the same count of distinct modules for every client code and project.
\<close>

theorem aggregation_order_invariant:
  assumes "mset xs = mset ys" and "oneNamePerCode xs"
  shows "previewCounts (aggregate ws xs) c p = previewCounts (aggregate ws ys) c p"
proof -
  from assms(1) have sets: "set xs = set ys" by (rule mset_eq_setD)
  from assms(1) have pm: "mset (map (mkPiece ws) xs) = mset (map (mkPiece ws) ys)"
    by simp
  have cnt: "countsOf n p (map (mkPiece ws) xs) = countsOf n p (map (mkPiece ws) ys)" for n
    by (rule countsOf_mset [OF pm])
  have pc: "previewCounts (aggregate ws rows) c p =
      (case map_option row_clientName (find (\<lambda>r. row_clientCode r = c) rows) of
         None \<Rightarrow> None
       | Some n \<Rightarrow> countsOf n p (map (mkPiece ws) rows))" for rows
    by (simp add: previewCounts_aggregate split: option.splits)
  show ?thesis
    unfolding pc find_name_perm [OF sets assms(2), of c] cnt ..
qed

theorem aggregation_order_invariant_witness:
  "mset [rowLtda1, rowLtda2] = mset [rowLtda2, rowLtda1] \<and>
   oneNamePerCode [rowLtda1, rowLtda2] \<and>
   previewCounts (aggregate ''ws'' [rowLtda1, rowLtda2]) ''C1'' ''P''
     = previewCounts (aggregate ''ws'' [rowLtda2, rowLtda1]) ''C1'' ''P''"
proof -
  have h1: "mset [rowLtda1, rowLtda2] = mset [rowLtda2, rowLtda1]"
    by (simp add: add.commute)
  have h2: "oneNamePerCode [rowLtda1, rowLtda2]"
    by (simp add: oneNamePerCode_def rowLtda1_def rowLtda2_def)
  from aggregation_order_invariant [OF h1 h2] h1 h2 show ?thesis by simp
qed

text \<open>
  The claim C9 as written fails for rows of one client code with two client names: the
  client map keeps the name of the first row of the code, and the pieces are counted by that
  name. The three rows are valid, the two lists are permutations of each other, and the
  counts for the project differ.
\<close>

theorem aggregation_order_counterexample:
  "CsvRowSchema rowAcme = Inr rowAcme \<and> CsvRowSchema rowLtda1 = Inr rowLtda1 \<and>
   CsvRowSchema rowLtda2 = Inr rowLtda2 \<and>
   mset [rowAcme, rowLtda1, rowLtda2] = mset [rowLtda1, rowAcme, rowLtda2] \<and>
   previewCounts (aggregate ''ws'' [rowAcme, rowLtda1, rowLtda2]) ''C1'' ''P'' = Some (1, 1) \<and>
   previewCounts (aggregate ''ws'' [rowLtda1, rowAcme, rowLtda2]) ''C1'' ''P'' = Some (2, 2)"
proof -
  have "CsvRowSchema rowAcme = Inr rowAcme" by code_simp
  moreover have "CsvRowSchema rowLtda1 = Inr rowLtda1" by code_simp
  moreover have "CsvRowSchema rowLtda2 = Inr rowLtda2" by code_simp
  moreover have "mset [rowAcme, rowLtda1, rowLtda2] = mset [rowLtda1, rowAcme, rowLtda2]"
    by (simp add: add.commute)
  moreover have "previewCounts (aggregate ''ws'' [rowAcme, rowLtda1, rowLtda2]) ''C1'' ''P'' = Some (1, 1)"
    by code_simp
  moreover have "previewCounts (aggregate ''ws'' [rowLtda1, rowAcme, rowLtda2]) ''C1'' ''P'' = Some (2, 2)"
    by code_simp
  ultimately show ?thesis by blast
qed

section \<open>Properties of the commit\<close>

lemma batchSetPieces_map_add:
  "batchSetPieces pecas db = db ++ map_of (rev (map (\<lambda>p. (piece_id p, p)) pecas))"
proof (induction pecas arbitrary: db)
  case Nil
  then show ?case by (simp add: batchSetPieces_def)
next
  case (Cons p pecas)
  have "batchSetPieces (p # pecas) db = batchSetPieces pecas (db(piece_id p \<mapsto> p))"
    by (simp add: batchSetPieces_def)
  also have "\<dots> = db(piece_id p \<mapsto> p) ++ map_of (rev (map (\<lambda>p. (piece_id p, p)) pecas))"
    by (rule Cons.IH)
  also have "\<dots> = db ++ map_of (rev (map (\<lambda>p. (piece_id p, p)) (p # pecas)))"
    by (simp add: map_add_def fun_eq_iff split: option.splits)
  finally show ?case .
qed

lemma batchSetPieces_idem:
  "batchSetPieces pecas (batchSetPieces pecas db) = batchSetPieces pecas db"
  by (simp add: batchSetPieces_map_add [of pecas] map_add_def fun_eq_iff split: option.splits)

text \<open>
  Claim C1. The document id of an imported piece is \<open>mk_piece_id\<close> of the workspace and the
  barcode of the record, for the CSV import and for the PDF import. Writing a batch of pieces
  a second time leaves the collection of pieces as the first write left it, and so does a
  second commit of the same staged data, by \<open>handleConfirm\<close> and by \<open>savePromobData\<close>: the same
  documents are written again with the same values, so no piece is added.
\<close>

theorem import_commit_idempotent:
  "piece_id (mkPiece ws validData) = mk_piece_id ws (row_barcode validData) \<and>
   piece_id (promobPiece ws item) = mk_piece_id ws (promobBarcode item) \<and>
   batchSetPieces pecas (batchSetPieces pecas db) = batchSetPieces pecas db \<and>
   db_pieces (handleConfirm True ((handleConfirm True st)\<lparr>pendingData := pendingData st\<rparr>))
     = db_pieces (handleConfirm True st) \<and>
   db_pieces (savePromobData ws True ((savePromobData ws True pst)\<lparr>promobItems := promobItems pst\<rparr>))
     = db_pieces (savePromobData ws True pst)"
proof -
  have a: "piece_id (mkPiece ws validData) = mk_piece_id ws (row_barcode validData)"
    by (simp add: mkPiece_def)
  have b: "piece_id (promobPiece ws item) = mk_piece_id ws (promobBarcode item)"
    by (simp add: promobPiece_def Let_def)
  have c: "db_pieces (handleConfirm True ((handleConfirm True st)\<lparr>pendingData := pendingData st\<rparr>))
           = db_pieces (handleConfirm True st)"
    by (simp add: handleConfirm_def handleConfirm_begin_def handleConfirm_run_def
        finallyImport_def batchSetPieces_idem split: option.splits)
  have d: "db_pieces (savePromobData ws True ((savePromobData ws True pst)\<lparr>promobItems := promobItems pst\<rparr>))
           = db_pieces (savePromobData ws True pst)"
    by (simp add: savePromobData_def Let_def batchSetPieces_idem)
  from a b c d batchSetPieces_idem show ?thesis by blast
qed

theorem import_commit_idempotent_witness:
  "map_option piece_id (db_pieces (handleConfirm True stagedState) ''ws_BC2'') = Some ''ws_BC2'' \<and>
   db_pieces (handleConfirm True ((handleConfirm True stagedState)\<lparr>pendingData := pendingData stagedState\<rparr>))
     = db_pieces (handleConfirm True stagedState) \<and>
   map_option piece_id (db_pieces (savePromobData ''ws'' True samplePdfState) ''ws_ABC123'')
     = Some ''ws_ABC123'' \<and>
   db_pieces (savePromobData ''ws'' True
       ((savePromobData ''ws'' True samplePdfState)\<lparr>promobItems := promobItems samplePdfState\<rparr>))
     = db_pieces (savePromobData ''ws'' True samplePdfState)"
proof -
  have w1: "map_option piece_id (db_pieces (handleConfirm True stagedState) ''ws_BC2'') = Some ''ws_BC2''"
    by code_simp
  have w2: "map_option piece_id (db_pieces (savePromobData ''ws'' True samplePdfState) ''ws_ABC123'')
      = Some ''ws_ABC123''"
    by code_simp
  from import_commit_idempotent [of "''ws''" rowAcme sampleItem "[]" Map.empty stagedState samplePdfState]
    w1 w2
  show ?thesis by simp
qed

section \<open>The duplicate check of the PDF import\<close>

lemma dropWhile_id: "xs = [] \<or> \<not> P (hd xs) \<Longrightarrow> dropWhile P xs = xs"
  by (cases xs) auto

lemma trim_Nil: "trim [] = []"
  by (simp add: trim_def)

lemma trim_ends:
  assumes "trim s \<noteq> []"
  shows "\<not> isWhiteSpace (hd (trim s)) \<and> \<not> isWhiteSpace (last (trim s))"
proof -
  let ?u = "dropWhile isWhiteSpace s"
  let ?v = "dropWhile isWhiteSpace (rev ?u)"
  have t: "trim s = rev ?v" by (simp add: trim_def)
  with assms have v: "?v \<noteq> []" by simp
  then have hv: "\<not> isWhiteSpace (hd ?v)" by (rule hd_dropWhile)
  have u: "?u \<noteq> []"
  proof
    assume "?u = []"
    then have "?v = []" by (simp only: rev.simps dropWhile.simps)
    with v show False by contradiction
  qed
  then have hu: "\<not> isWhiteSpace (hd ?u)" by (rule hd_dropWhile)
  have "rev ?u = takeWhile isWhiteSpace (rev ?u) @ ?v"
    by (simp only: takeWhile_dropWhile_id)
  then have "last (rev ?u) = last (takeWhile isWhiteSpace (rev ?u) @ ?v)"
    by (rule arg_cong)
  also have "\<dots> = last ?v" using v by (rule last_appendR)
  finally have "last ?v = last (rev ?u)" by (rule sym)
  also have "\<dots> = hd ?u" using u by (simp only: last_rev)
  finally have lv: "last ?v = hd ?u" .
  have "hd (trim s) = last ?v" using v by (simp only: t hd_rev)
  moreover have "last (trim s) = hd ?v" using v by (simp only: t last_rev)
  ultimately show ?thesis using hv hu lv by simp
qed

lemma trim_idem: "trim (trim s) = trim s"
proof (cases "trim s = []")
  case True
  then have "trim (trim s) = trim []" by (rule arg_cong)
  also have "\<dots> = []" by (rule trim_Nil)
  finally show ?thesis using True by (rule trans [OF _ sym])
next
  case False
  from trim_ends [OF False]
  have h: "\<not> isWhiteSpace (hd (trim s))" and l: "\<not> isWhiteSpace (last (trim s))"
    by blast+
  from h have d1: "dropWhile isWhiteSpace (trim s) = trim s"
    by (intro dropWhile_id) blast
  from False l have "\<not> isWhiteSpace (hd (rev (trim s)))"
    by (simp add: hd_rev)
  then have d2: "dropWhile isWhiteSpace (rev (trim s)) = rev (trim s)"
    by (intro dropWhile_id) blast
  show ?thesis
    unfolding trim_def [of "trim s"] d1 d2 by (rule rev_rev_ident)
qed

lemma BarcodeSchema_value:
  "snd (BarcodeSchema p v) = (if v = [] then None else Some (trim v))"
  by (simp add: BarcodeSchema_def z_refine_def z_transform_def z_min_def z_string_def Let_def)

lemma PdfItemSchema_codItem:
  assumes "trim (raw_codItem r) = raw_codItem r"
  shows "raw_codItem (case PdfItemSchema r of Inl _ \<Rightarrow> r | Inr d \<Rightarrow> d) = raw_codItem r"
  using assms
  by (auto simp: PdfItemSchema_def Let_def BarcodeSchema_value BarcodeSchema_issues parsed_def
      split: sum.splits if_splits)

text \<open>
  What the check of \<open>processPdfFile\<close> decides: a cell with an item code or a piece name gives
  an item, and the item is marked as a duplicate exactly when the id of a loaded piece ends
  with its item code.
\<close>

lemma processCell_included:
  assumes "(codMatch m \<noteq> None \<and> trim (the (codMatch m)) \<noteq> []) \<or> pecaMatch m \<noteq> None"
  shows "fst (processCell pieces i uuid m) \<noteq> None"
  using assms by (auto simp: processCell_def Let_def split: option.splits)

lemma processCell_suffix_check:
  assumes "processCell pieces i uuid m = (Some item, errs)"
  shows "(list_ex (\<lambda>p. endsWith (piece_id p) (item_codItem item)) pieces \<longrightarrow>
            \<not> item_isValid item \<and>
            (''C'' @ [CHR 0xF3] @ ''digo j'' @ [CHR 0xE1] @ '' existe no sistema'') \<in> set (item_errors item)) \<and>
         (item_isValid item \<longrightarrow>
            \<not> list_ex (\<lambda>p. endsWith (piece_id p) (item_codItem item)) pieces)"
proof -
  define rawCod where "rawCod = (case codMatch m of None \<Rightarrow> [] | Some c \<Rightarrow> trim c)"
  define rawItem where "rawItem =
     \<lparr>raw_cliente = matchOr (clienteMatch m), raw_projeto = matchOr (projetoMatch m),
      raw_modulo = matchOr (moduloMatch m), raw_peca = matchOr (pecaMatch m),
      raw_codItem = rawCod, raw_medidas = matchOr (medidasMatch m),
      raw_obs = matchOr (obsMatch m)\<rparr>"
  define validData where
    "validData = (case PdfItemSchema rawItem of Inl _ \<Rightarrow> rawItem | Inr d \<Rightarrow> d)"
  define dup where
    "dup = list_ex (\<lambda>p. endsWith (piece_id p) (raw_codItem validData)) pieces"
  have st: "trim rawCod = rawCod"
    by (simp add: rawCod_def trim_idem trim_Nil split: option.splits)
  then have cod: "raw_codItem validData = rawCod"
    unfolding validData_def using PdfItemSchema_codItem [of rawItem]
    by (simp add: rawItem_def)
  from assms have not_skipped: "\<not> (rawCod = [] \<and> pecaMatch m = None)"
    by (auto simp: processCell_def rawCod_def Let_def split: if_splits)
  with assms have item: "item_codItem item = trim (raw_codItem validData)"
    "item_isValid item = ((case PdfItemSchema rawItem of Inl is \<Rightarrow> is | Inr _ \<Rightarrow> []) = [] \<and> \<not> dup)"
    "item_errors item = map issue_message (case PdfItemSchema rawItem of Inl is \<Rightarrow> is | Inr _ \<Rightarrow> [])
        @ (if dup then [''C'' @ [CHR 0xF3] @ ''digo j'' @ [CHR 0xE1] @ '' existe no sistema''] else [])"
    unfolding processCell_def Let_def rawCod_def [symmetric] rawItem_def [symmetric]
      validData_def [symmetric] dup_def [symmetric]
    by auto
  from item(1) cod st have c: "item_codItem item = raw_codItem validData" by simp
  show ?thesis
    unfolding c dup_def [symmetric] using item(2,3) by simp
qed

text \<open>
  Claim C6, at a failing input. The store holds the produced piece \<open>ws_ABC123\<close>. A cell with
  the item code \<open>abc123\<close> gives an item that is valid and has no error, although the id derived
  for it on save is \<open>ws_ABC123\<close>: the check compares the ids of the loaded pieces with the
  code as extracted, not with the id derived from it. Saving the item replaces the produced
  piece by a pending one. The same cell with the code \<open>ABC123\<close> is marked invalid.
\<close>

theorem duplicate_check_misses_derived_id:
  "processCell [producedPiece] 1 ''uuid-1'' sampleCell = (Some sampleItem, []) \<and>
   item_isValid sampleItem \<and> item_errors sampleItem = [] \<and>
   piece_id (promobPiece ''ws'' sampleItem) = piece_id producedPiece \<and>
   status producedPiece = PRODUZIDA \<and>
   map_option status (db_pieces (savePromobData ''ws'' True samplePdfState) ''ws_ABC123'')
     = Some PENDENTE \<and>
   map_option item_isValid (fst (processCell [producedPiece] 1 ''uuid-1'' sampleCellUpper))
     = Some False"
proof -
  have "processCell [producedPiece] 1 ''uuid-1'' sampleCell = (Some sampleItem, [])"
    by code_simp
  moreover have "item_isValid sampleItem" "item_errors sampleItem = []"
    by (simp_all add: sampleItem_def)
  moreover have "piece_id (promobPiece ''ws'' sampleItem) = piece_id producedPiece"
    by code_simp
  moreover have "status producedPiece = PRODUZIDA"
    by (simp add: producedPiece_def)
  moreover have "map_option status (db_pieces (savePromobData ''ws'' True samplePdfState) ''ws_ABC123'')
     = Some PENDENTE"
    by code_simp
  moreover have "map_option item_isValid (fst (processCell [producedPiece] 1 ''uuid-1'' sampleCellUpper))
     = Some False"
    by code_simp
  ultimately show ?thesis by blast
qed

end
